theory Spec2Isabelle
  imports Complex_Main
begin

section \<open>Conventions of the embedding\<close>

text \<open>
  The Go sources are embedded shallowly.  A \<^verbatim>\<open>float64\<close> is modelled by the real number
  it denotes, so arithmetic is exact; rounding, overflow to infinity and NaN are outside
  the model, except in the S/R client, whose validation tests for NaN explicitly and where
  a value is therefore either NaN or a real.  A Go \<^verbatim>\<open>int\<close> is modelled by \<^typ>\<open>int\<close>, a slice
  by a list, a nil-able pointer by an option, and a \<^verbatim>\<open>time.Time\<close> by a number of clock
  ticks.
\<close>

section \<open>Grid engine: internal/strategy/grid.go\<close>

record GridLevel =
  Index :: int
  Price :: real
  Side :: string
  Quantity :: real
  Filled :: bool
  FilledAt :: "nat option"
  TxHash :: "string option"

subsection \<open>CalculateGridLevels\<close>













subsection \<open>FindTriggeredLevel\<close>

text \<open>
  The loop \<^verbatim>\<open>for i := range grid\<close> of FindTriggeredLevel, started at slice position \<open>i\<close>
  with the rest of the slice still to visit.  The Go function returns the pointer
  \<^verbatim>\<open>&grid[i]\<close>; the model returns the position \<open>i\<close>, and nil is \<open>None\<close>.
\<close>

fun FindTriggeredLevel_loop :: "real \<Rightarrow> nat \<Rightarrow> GridLevel list \<Rightarrow> nat option" where
  "FindTriggeredLevel_loop currentPrice i [] = None"
| "FindTriggeredLevel_loop currentPrice i (l # ls) =
     (if Filled l then FindTriggeredLevel_loop currentPrice (Suc i) ls
      else if Side l = ''buy'' \<and> currentPrice \<le> Price l then Some i
      else if Side l = ''sell'' \<and> currentPrice \<ge> Price l then Some i
      else FindTriggeredLevel_loop currentPrice (Suc i) ls)"

definition FindTriggeredLevel :: "real \<Rightarrow> GridLevel list \<Rightarrow> nat option" where
  "FindTriggeredLevel currentPrice grid = FindTriggeredLevel_loop currentPrice 0 grid"

text \<open>
  The trigger condition in the words of the specification: the level is unfilled and
  either a buy at or above the price, or a sell at or below it.
\<close>

definition is_triggered :: "real \<Rightarrow> GridLevel \<Rightarrow> bool" where
  "is_triggered P l \<longleftrightarrow>
     \<not> Filled l \<and> (Side l = ''buy'' \<and> P \<le> Price l \<or> Side l = ''sell'' \<and> P \<ge> Price l)"

text \<open>The grid of TestFindTriggeredLevel.\<close>

definition mk_level :: "int \<Rightarrow> real \<Rightarrow> string \<Rightarrow> bool \<Rightarrow> GridLevel" where
  "mk_level i p s f =
     \<lparr>Index = i, Price = p, Side = s, Quantity = 0, Filled = f,
      FilledAt = None, TxHash = None\<rparr>"

definition test_grid :: "GridLevel list" where
  "test_grid =
     [mk_level 0 2550 ''buy'' False, mk_level 1 2600 ''buy'' False,
      mk_level 2 2700 ''sell'' False, mk_level 3 2750 ''sell'' False]"

subsection \<open>GetOppositeLevelIndex and GridBot.resetOppositeLevel\<close>

definition GetOppositeLevelIndex :: "GridLevel \<Rightarrow> int \<Rightarrow> int option" where
  "GetOppositeLevelIndex filledLevel gridLength =
     (let idx = (if Side filledLevel = ''buy'' then Index filledLevel + 1
                 else Index filledLevel - 1)
      in if idx \<ge> 0 \<and> idx < gridLength then Some idx else None)"

text \<open>
  resetOppositeLevel of internal/bot/gridbot.go acts on the bot's grid \<^verbatim>\<open>b.Grid\<close>; the
  model passes the grid in and returns it updated.  The call of \<^verbatim>\<open>saveState\<close> persists
  the grid and does not change it, so it has no counterpart here.
\<close>

definition clear_fill :: "GridLevel \<Rightarrow> GridLevel" where
  "clear_fill adj = adj\<lparr>Filled := False, FilledAt := None, TxHash := None\<rparr>"

definition resetOppositeLevel :: "GridLevel list \<Rightarrow> GridLevel \<Rightarrow> GridLevel list" where
  "resetOppositeLevel grid filled =
     (case GetOppositeLevelIndex filled (int (length grid)) of
        None \<Rightarrow> grid
      | Some idx \<Rightarrow>
          (let adj = grid ! nat idx
           in if Filled adj then grid[nat idx := clear_fill adj] else grid))"

subsection \<open>CalculateSRChange\<close>


section \<open>S/R samples: models.SupportResistance and SRRepo.CheckSignificantChange\<close>










section \<open>Risk guardian: internal/risk/guardian.go\<close>

record Limits =
  MaxDailyTrades :: int
  MaxPositionSizeUSD :: real
  StopLossPercent :: real
  TakeProfitPercent :: real

text \<open>
  The DailyTradeCounter interface value of a guardian: nil (\<open>None\<close>), or a counter whose
  \<^verbatim>\<open>CountToday\<close> returns an error (\<open>Inl\<close>) or today's count (\<open>Inr\<close>).
\<close>

record Guardian =
  limits :: Limits
  counter :: "(string + int) option"

datatype guardian_error =
    PositionSizeExceeded real real
  | CountUnavailable string
  | DailyLimitReached int int
  | StopLossTriggered real real
  | TakeProfitTriggered real real

definition PreTradeCheck :: "Guardian \<Rightarrow> real \<Rightarrow> guardian_error option" where
  "PreTradeCheck g tradeUSDValue =
     (if MaxPositionSizeUSD (limits g) > 0 \<and> tradeUSDValue > MaxPositionSizeUSD (limits g)
      then Some (PositionSizeExceeded tradeUSDValue (MaxPositionSizeUSD (limits g)))
      else if MaxDailyTrades (limits g) > 0 \<and> counter g \<noteq> None
      then (case the (counter g) of
              Inl err \<Rightarrow> Some (CountUnavailable err)
            | Inr count \<Rightarrow>
                if count \<ge> MaxDailyTrades (limits g)
                then Some (DailyLimitReached (MaxDailyTrades (limits g)) count)
                else None)
      else None)"

definition PortfolioCheck :: "Guardian \<Rightarrow> real \<Rightarrow> guardian_error option" where
  "PortfolioCheck g pnlPercent =
     (if StopLossPercent (limits g) > 0 \<and> pnlPercent \<le> - StopLossPercent (limits g)
      then Some (StopLossTriggered pnlPercent (StopLossPercent (limits g)))
      else if TakeProfitPercent (limits g) > 0 \<and> pnlPercent \<ge> TakeProfitPercent (limits g)
      then Some (TakeProfitTriggered pnlPercent (TakeProfitPercent (limits g)))
      else None)"

text \<open>Guardians of guardian\_test.go and of the default configuration.\<close>

definition no_limits :: Limits where
  "no_limits = \<lparr>MaxDailyTrades = 0, MaxPositionSizeUSD = 0, StopLossPercent = 0,
                 TakeProfitPercent = 0\<rparr>"

definition guardian_db_down :: Guardian where
  "guardian_db_down = \<lparr>limits = no_limits, counter = Some (Inl ''db down'')\<rparr>"

definition guardian_test :: Guardian where
  "guardian_test =
     \<lparr>limits = \<lparr>MaxDailyTrades = 50, MaxPositionSizeUSD = 500, StopLossPercent = 5,
                 TakeProfitPercent = 15\<rparr>,
      counter = Some (Inr 50)\<rparr>"

section \<open>Paper wallet and paper execution: internal/bot\<close>

text \<open>
  The wallet of paper mode.  Its \<^verbatim>\<open>gridRepo\<close> handle and the calls of \<^verbatim>\<open>save\<close>, which only
  persist the fields below, have no counterpart in the model.  The fields of a recorded
  trade that share a name with a field of a grid level carry the prefix \<open>trade\<close>.
\<close>

record BalSnap =
  ETH :: real
  USDC :: real

record PaperTrade =
  tradeID :: int
  tradeTimestamp :: nat
  tradeSide :: string
  tradeGridLevel :: int
  TriggerPrice :: real
  ExecutionPrice :: real
  ETHAmount :: real
  USDCAmount :: real
  SlippagePct :: real
  GasCost :: real
  BalanceAfter :: BalSnap

record PaperWallet =
  initialETH :: real
  initialUSDC :: real
  ETHBalance :: real
  USDCBalance :: real
  Trades :: "PaperTrade list"
  TotalGas :: real
  StartTime :: nat

datatype paper_error = InsufficientUSDC real real | InsufficientETH real real

definition ExecuteBuy :: "PaperWallet \<Rightarrow> real \<Rightarrow> real \<Rightarrow> paper_error + PaperWallet" where
  "ExecuteBuy pw usdcAmount ethAmount =
     (if USDCBalance pw < usdcAmount then Inl (InsufficientUSDC (USDCBalance pw) usdcAmount)
      else Inr (pw\<lparr>USDCBalance := USDCBalance pw - usdcAmount,
                    ETHBalance := ETHBalance pw + ethAmount\<rparr>))"

definition ExecuteSell :: "PaperWallet \<Rightarrow> real \<Rightarrow> real \<Rightarrow> paper_error + PaperWallet" where
  "ExecuteSell pw ethAmount usdcAmount =
     (if ETHBalance pw < ethAmount then Inl (InsufficientETH (ETHBalance pw) ethAmount)
      else Inr (pw\<lparr>ETHBalance := ETHBalance pw - ethAmount,
                    USDCBalance := USDCBalance pw + usdcAmount\<rparr>))"

definition DeductGas :: "PaperWallet \<Rightarrow> real \<Rightarrow> PaperWallet" where
  "DeductGas pw gasETH =
     pw\<lparr>ETHBalance := ETHBalance pw - gasETH, TotalGas := TotalGas pw + gasETH\<rparr>"

definition RecordTrade :: "PaperWallet \<Rightarrow> nat \<Rightarrow> PaperTrade \<Rightarrow> PaperWallet" where
  "RecordTrade pw now t =
     pw\<lparr>Trades := Trades pw @
         [t\<lparr>tradeID := int (length (Trades pw)) + 1, tradeTimestamp := now,
            BalanceAfter := \<lparr>ETH = ETHBalance pw, USDC = USDCBalance pw\<rparr>\<rparr>]\<rparr>"

text \<open>
  \<^verbatim>\<open>rand.Float64()\<close> returns a number in \<open>[0, 1)\<close>; the model takes that sample as the
  argument \<open>u\<close>.
\<close>

definition randomSlippage :: "real \<Rightarrow> real \<Rightarrow> real" where
  "randomSlippage u maxPct = u * maxPct / 100"

definition defaultPaperGasCost :: real where
  "defaultPaperGasCost = 5 / 1000"

text \<open>
  A successful paper swap returns the wallet, the synthetic hash (the side and the clock's
  nanoseconds, which the code prints as \<^verbatim>\<open>0xPAPER_<side>_<nanos>\<close>), the slippage in percent
  and the gas cost.  \<open>paperSlippagePercent\<close> is the configuration value
  \<^verbatim>\<open>b.cfg.PaperSlippagePercent\<close>.
\<close>

definition executePaperSwap ::
  "real \<Rightarrow> real \<Rightarrow> nat \<Rightarrow> PaperWallet \<Rightarrow> GridLevel \<Rightarrow> real \<Rightarrow> string \<Rightarrow> real \<Rightarrow> real
     \<Rightarrow> paper_error + (PaperWallet \<times> (string \<times> nat) \<times> real \<times> real)" where
  "executePaperSwap paperSlippagePercent u now pw level currentPrice side ethAmount usdcAmount =
     (let slip = randomSlippage u paperSlippagePercent;
          gas = defaultPaperGasCost;
          finish = (\<lambda>pw' ethAmount' usdcAmount'.
            let pw1 = DeductGas pw' gas;
                pw2 = RecordTrade pw1 now
                  \<lparr>tradeID = 0, tradeTimestamp = 0, tradeSide = side,
                   tradeGridLevel = Index level, TriggerPrice = Price level,
                   ExecutionPrice = currentPrice, ETHAmount = ethAmount',
                   USDCAmount = usdcAmount', SlippagePct = slip * 100, GasCost = gas,
                   BalanceAfter = \<lparr>ETH = 0, USDC = 0\<rparr>\<rparr>
            in Inr (pw2, (side, now), slip * 100, gas))
      in if side = ''buy'' then
           (let actualETH = ethAmount * (1 - slip)
            in case ExecuteBuy pw usdcAmount actualETH of
                 Inl err \<Rightarrow> Inl err
               | Inr pw' \<Rightarrow> finish pw' actualETH usdcAmount)
         else if ETHBalance pw < ethAmount + gas
           then Inl (InsufficientETH (ETHBalance pw) (ethAmount + gas))
         else
           (let usdcAmount' = usdcAmount * (1 - slip)
            in case ExecuteSell pw ethAmount usdcAmount' of
                 Inl err \<Rightarrow> Inl err
               | Inr pw' \<Rightarrow> finish pw' ethAmount usdcAmount'))"

text \<open>
  executeSwap passes the level's quantity as the asset amount and the quantity times the
  current price as the quote amount.
\<close>

definition executeSwap_paper ::
  "real \<Rightarrow> real \<Rightarrow> nat \<Rightarrow> PaperWallet \<Rightarrow> GridLevel \<Rightarrow> real \<Rightarrow> string
     \<Rightarrow> paper_error + (PaperWallet \<times> (string \<times> nat) \<times> real \<times> real)" where
  "executeSwap_paper paperSlippagePercent u now pw level currentPrice side =
     (let ethAmount = Quantity level;
          usdcAmount = ethAmount * currentPrice
      in executePaperSwap paperSlippagePercent u now pw level currentPrice side
           ethAmount usdcAmount)"

text \<open>
  Wallets and levels of the examples: the default start of one asset unit and 1000 quote
  units, a start with quote units only, a buy level of scenario 7 of the specification,
  and a buy level with a budget of 10 quote units at price 2500.
\<close>

definition new_wallet :: "real \<Rightarrow> real \<Rightarrow> PaperWallet" where
  "new_wallet e u =
     \<lparr>initialETH = e, initialUSDC = u, ETHBalance = e, USDCBalance = u, Trades = [],
      TotalGas = 0, StartTime = 0\<rparr>"

definition level_2000 :: GridLevel where
  "level_2000 = \<lparr>Index = 0, Price = 2000, Side = ''buy'', Quantity = 5 / 100, Filled = False,
                  FilledAt = None, TxHash = None\<rparr>"

definition level_2500 :: GridLevel where
  "level_2500 = \<lparr>Index = 0, Price = 2500, Side = ''buy'', Quantity = 10 / 2500, Filled = False,
                  FilledAt = None, TxHash = None\<rparr>"

section \<open>Read API middleware: internal/api/server.go\<close>

text \<open>
  A request carries its method, the path of its URL and the value that
  \<^verbatim>\<open>r.Header.Get("Authorization")\<close> returns, which is the empty string when the header is
  absent.  A response writer holds the header map, the status code once
  \<^verbatim>\<open>WriteHeader\<close> has been called, and the JSON values encoded to the body.  A handler maps
  a request and a writer to the writer after the handler has run.
\<close>

record Request =
  reqMethod :: string
  reqPath :: string
  reqAuthorization :: string

datatype payload = ErrorJSON string

record ResponseWriter =
  rwHeader :: "string \<rightharpoonup> string"
  rwStatus :: "nat option"
  rwBody :: "payload list"

type_synonym Handler = "Request \<Rightarrow> ResponseWriter \<Rightarrow> ResponseWriter"

definition HeaderSet :: "string \<Rightarrow> string \<Rightarrow> ResponseWriter \<Rightarrow> ResponseWriter" where
  "HeaderSet k v w = w\<lparr>rwHeader := (rwHeader w)(k \<mapsto> v)\<rparr>"

text \<open>Only the first call of \<^verbatim>\<open>WriteHeader\<close> sets the status of a response.\<close>

definition WriteHeader :: "nat \<Rightarrow> ResponseWriter \<Rightarrow> ResponseWriter" where
  "WriteHeader code w = (if rwStatus w = None then w\<lparr>rwStatus := Some code\<rparr> else w)"

definition writeJSON :: "ResponseWriter \<Rightarrow> nat \<Rightarrow> payload \<Rightarrow> ResponseWriter" where
  "writeJSON w status v =
     (let w1 = HeaderSet ''Content-Type'' ''application/json'' w;
          w2 = WriteHeader status w1
      in w2\<lparr>rwBody := rwBody w2 @ [v]\<rparr>)"

definition writeError :: "ResponseWriter \<Rightarrow> nat \<Rightarrow> string \<Rightarrow> ResponseWriter" where
  "writeError w status msg = writeJSON w status (ErrorJSON msg)"

definition TrimPrefix :: "string \<Rightarrow> string \<Rightarrow> string" where
  "TrimPrefix s prefix =
     (if take (length prefix) s = prefix then drop (length prefix) s else s)"

definition authMiddleware :: "string \<Rightarrow> Handler \<Rightarrow> Handler" where
  "authMiddleware key next r w =
     (if key = [] \<or> reqPath r = ''/health'' then next r w
      else
        (let auth = reqAuthorization r
         in if auth = [] then writeError w 401 ''missing Authorization header''
            else
              (let token = TrimPrefix auth ''Bearer ''
               in if token = auth \<or> token \<noteq> key then writeError w 401 ''invalid API key''
                  else next r w)))"

definition corsMiddleware :: "Handler \<Rightarrow> string \<Rightarrow> Handler" where
  "corsMiddleware next allowOrigin r w =
     (let origin = (if allowOrigin = [] then ''*'' else allowOrigin);
          w1 = HeaderSet ''Access-Control-Allow-Origin'' origin w;
          w2 = HeaderSet ''Access-Control-Allow-Methods'' ''GET, OPTIONS'' w1;
          w3 = HeaderSet ''Access-Control-Allow-Headers'' ''Content-Type, Authorization'' w2
      in if reqMethod r = ''OPTIONS'' then WriteHeader 200 w3 else next r w3)"

text \<open>
  The handler that NewServer installs: \<^verbatim>\<open>s.authMiddleware(corsMiddleware(mux, corsOrigin))\<close>.
\<close>

definition api_handler :: "string \<Rightarrow> string \<Rightarrow> Handler \<Rightarrow> Handler" where
  "api_handler key corsOrigin mux = authMiddleware key (corsMiddleware mux corsOrigin)"

text \<open>The CORS headers on a writer, as corsMiddleware sets them.\<close>

definition cors_headers :: "string \<Rightarrow> ResponseWriter \<Rightarrow> ResponseWriter" where
  "cors_headers allowOrigin w =
     HeaderSet ''Access-Control-Allow-Headers'' ''Content-Type, Authorization''
       (HeaderSet ''Access-Control-Allow-Methods'' ''GET, OPTIONS''
          (HeaderSet ''Access-Control-Allow-Origin''
             (if allowOrigin = [] then ''*'' else allowOrigin) w))"

text \<open>
  A fresh writer, the requests of scenario 6 of the specification, and an inner handler
  that answers 200 and leaves a mark in the body.
\<close>

definition new_writer :: ResponseWriter where
  "new_writer = \<lparr>rwHeader = Map.empty, rwStatus = None, rwBody = []\<rparr>"

definition preflight :: Request where
  "preflight = \<lparr>reqMethod = ''OPTIONS'', reqPath = ''/v1/prices/latest'', reqAuthorization = []\<rparr>"

definition stats_request :: "string \<Rightarrow> Request" where
  "stats_request auth = \<lparr>reqMethod = ''GET'', reqPath = ''/v1/trades/stats'', reqAuthorization = auth\<rparr>"

definition inner_ok :: Handler where
  "inner_ok r w = (WriteHeader 200 w)\<lparr>rwBody := rwBody w @ [ErrorJSON ''inner'']\<rparr>"

section \<open>S/R client: internal/external/dune.go\<close>

text \<open>
  In this component a \<^verbatim>\<open>float64\<close> is NaN or a real number, because jsonFloat produces NaN
  and FetchSupportResistance tests for it.  Comparisons follow IEEE: every comparison
  with NaN is false.
\<close>

datatype float64 = NaN | F64 real

fun IsNaN :: "float64 \<Rightarrow> bool" where
  "IsNaN NaN = True"
| "IsNaN (F64 x) = False"

fun f64_ge :: "float64 \<Rightarrow> float64 \<Rightarrow> bool" where
  "f64_ge (F64 a) (F64 b) = (a \<ge> b)"
| "f64_ge NaN y = False"
| "f64_ge (F64 a) NaN = False"

fun f64_less :: "float64 \<Rightarrow> float64 \<Rightarrow> bool" where
  "f64_less (F64 a) (F64 b) = (a < b)"
| "f64_less NaN y = False"
| "f64_less (F64 a) NaN = False"

text \<open>
  The fields of SRResult that share a name with a field of a stored sample carry the
  prefix \<open>res\<close>.  Times are clock readings in nanoseconds, durations their differences.
\<close>

record SRResult =
  resSupport :: float64
  resResistance :: float64
  resMidpoint :: float64
  resAvgPrice :: float64
  resMethod :: string
  resLookbackDays :: int
  FetchedAt :: int

text \<open>
  The client without its HTTP handle, retry configuration and mutex.  Every access to the
  cache fields is made under the mutex, and no I/O happens while it is held.
\<close>

record DuneClient =
  apiKey :: string
  baseURL :: string
  "method" :: string
  lookbackDays :: int
  cachedResult :: "SRResult option"
  lastFetch :: int
  cacheTTL :: int

text \<open>
  A decoded JSON value of a result row: a \<^verbatim>\<open>float64\<close>, a \<^verbatim>\<open>json.Number\<close> (given by the
  value its \<^verbatim>\<open>Float64\<close> method returns) or a value of another type.
\<close>

datatype json_value = JFloat float64 | JNumber float64 | JOther

type_synonym row = "string \<rightharpoonup> json_value"

definition jsonFloat :: "row \<Rightarrow> string \<Rightarrow> float64" where
  "jsonFloat m k =
     (case m k of
        None \<Rightarrow> NaN
      | Some (JFloat n) \<Rightarrow> n
      | Some (JNumber f) \<Rightarrow> f
      | Some JOther \<Rightarrow> NaN)"

datatype dune_error =
    QueryError string
  | NoData
  | InvalidData
  | InvalidRange float64 float64

text \<open>The result that FetchSupportResistance builds from the first row.\<close>

definition row_result :: "DuneClient \<Rightarrow> row \<Rightarrow> int \<Rightarrow> SRResult" where
  "row_result d r fetchedAt =
     \<lparr>resSupport = jsonFloat r ''support'',
      resResistance = jsonFloat r ''resistance'',
      resMidpoint = jsonFloat r ''midpoint'',
      resAvgPrice = jsonFloat r ''avg_price'',
      resMethod = method d,
      resLookbackDays = lookbackDays d,
      FetchedAt = fetchedAt\<rparr>"

text \<open>
  FetchSupportResistance with its effects made explicit.  \<open>now\<close> is the clock when the
  cache is examined, \<open>query\<close> is what \<^verbatim>\<open>d.executeQuery(ctx, sql)\<close> returns (an error or the
  rows; executeQuery and fetchResults do not touch the cache fields), \<open>fetchedAt\<close> and
  \<open>storedAt\<close> are the two later clock readings.  The function returns the result or error
  together with the client afterwards.
\<close>

definition FetchSupportResistance ::
  "DuneClient \<Rightarrow> bool \<Rightarrow> int \<Rightarrow> string + row list \<Rightarrow> int \<Rightarrow> int
     \<Rightarrow> (dune_error + SRResult) \<times> DuneClient" where
  "FetchSupportResistance d forceRefresh now query fetchedAt storedAt =
     (if \<not> forceRefresh \<and> cachedResult d \<noteq> None \<and> now - lastFetch d < cacheTTL d
      then (Inr (the (cachedResult d)), d)
      else
        (case query of
           Inl err \<Rightarrow> (Inl (QueryError err), d)
         | Inr rows \<Rightarrow>
             if length rows = 0 then (Inl NoData, d)
             else
               (let result = row_result d (rows ! 0) fetchedAt
                in if IsNaN (resSupport result) \<or> IsNaN (resResistance result)
                      \<or> IsNaN (resMidpoint result)
                   then (Inl InvalidData, d)
                   else if f64_ge (resSupport result) (resResistance result)
                   then (Inl (InvalidRange (resSupport result) (resResistance result)), d)
                   else (Inr result, d\<lparr>cachedResult := Some result, lastFetch := storedAt\<rparr>))))"

text \<open>
  Validation in the words of the claim: support, resistance and midpoint are not NaN, and
  support is below resistance.
\<close>

definition passes_validation :: "SRResult \<Rightarrow> bool" where
  "passes_validation r \<longleftrightarrow>
     resSupport r \<noteq> NaN \<and> resResistance r \<noteq> NaN \<and> resMidpoint r \<noteq> NaN
     \<and> f64_less (resSupport r) (resResistance r)"

text \<open>A client with a cached result, and rows as the provider may return them.\<close>

definition cached_sr :: SRResult where
  "cached_sr = \<lparr>resSupport = F64 2400, resResistance = F64 3000, resMidpoint = F64 2700,
                 resAvgPrice = F64 2710, resMethod = ''simple'', resLookbackDays = 14,
                 FetchedAt = 10\<rparr>"

definition warm_client :: DuneClient where
  "warm_client = \<lparr>apiKey = ''k'', baseURL = ''https://api.dune.com/api/v1'', method = ''simple'',
                   lookbackDays = 14, cachedResult = Some cached_sr, lastFetch = 10,
                   cacheTTL = 1000\<rparr>"

definition row_of :: "float64 \<Rightarrow> float64 \<Rightarrow> float64 \<Rightarrow> row" where
  "row_of s r m =
     [''support'' \<mapsto> JFloat s, ''resistance'' \<mapsto> JFloat r, ''midpoint'' \<mapsto> JFloat m,
      ''avg_price'' \<mapsto> JFloat m]"

section \<open>Retry executor: httputil.Do\<close>

text \<open>
  A \<^verbatim>\<open>time.Duration\<close> is a signed 64-bit count of nanoseconds; it is modelled by an
  integer, and the doubling of the delay wraps around as in Go.
\<close>

record RetryConfig =
  MaxAttempts :: int
  BaseDelay :: int
  MaxDelay :: int

definition DefaultRetry :: RetryConfig where
  "DefaultRetry = \<lparr>MaxAttempts = 3, BaseDelay = 1000000000, MaxDelay = 10000000000\<rparr>"

text \<open>
  What one attempt meets: the request factory fails, the client returns a transport error,
  or a response arrives with its status code and body.  A retried failure is remembered as
  the last cause: the transport error, or the status with the first 512 bytes of the body.
  A cancelled context reports one of two errors.
\<close>

datatype attempt_outcome = BuildFailed string | TransportFailed string | Responded int string

datatype cause = TransportCause string | HTTPCause int string

datatype ctx_err = Canceled | DeadlineExceeded

datatype do_error =
    BuildRequestError string
  | ContextError ctx_err
  | AllAttemptsFailed int "cause option"

text \<open>
  The result of a call together with what it did: the number of requests sent with
  \<^verbatim>\<open>client.Do\<close> and the delays of the backoff waits it entered, in order.
\<close>

record do_result =
  outcome :: "do_error + (int \<times> string)"
  attempts :: nat
  waits :: "int list"

definition wrap64 :: "int \<Rightarrow> int" where
  "wrap64 x = (x + 2 ^ 63) mod 2 ^ 64 - 2 ^ 63"

definition next_delay :: "RetryConfig \<Rightarrow> int \<Rightarrow> int" where
  "next_delay cfg delay =
     (let d = wrap64 (delay * 2) in if d > MaxDelay cfg then MaxDelay cfg else d)"

text \<open>
  The loop of Do from attempt number \<open>attempt\<close> on.  \<open>send k\<close> is what attempt \<open>k\<close> meets,
  and \<open>ctx k\<close> tells whether the context is done during the wait after attempt \<open>k\<close>
  (\<open>None\<close>: the timer fires first).  The loop ends after at most \<open>MaxAttempts\<close> attempts,
  which is the termination argument.
\<close>

function Do_loop ::
  "RetryConfig \<Rightarrow> (int \<Rightarrow> attempt_outcome) \<Rightarrow> (int \<Rightarrow> ctx_err option) \<Rightarrow> int \<Rightarrow> int
     \<Rightarrow> cause option \<Rightarrow> nat \<Rightarrow> int list \<Rightarrow> do_result" where
  "Do_loop cfg send ctx attempt delay lastErr sent slept =
     (if attempt \<le> MaxAttempts cfg then
        (case send attempt of
           BuildFailed e \<Rightarrow>
             \<lparr>outcome = Inl (BuildRequestError e), attempts = sent, waits = slept\<rparr>
         | TransportFailed e \<Rightarrow>
             if attempt = MaxAttempts cfg
             then \<lparr>outcome = Inl (AllAttemptsFailed (MaxAttempts cfg) (Some (TransportCause e))),
                   attempts = Suc sent, waits = slept\<rparr>
             else (case ctx attempt of
                     Some ce \<Rightarrow> \<lparr>outcome = Inl (ContextError ce), attempts = Suc sent,
                                  waits = slept @ [delay]\<rparr>
                   | None \<Rightarrow> Do_loop cfg send ctx (attempt + 1) (next_delay cfg delay)
                               (Some (TransportCause e)) (Suc sent) (slept @ [delay]))
         | Responded code body \<Rightarrow>
             if code < 500
             then \<lparr>outcome = Inr (code, body), attempts = Suc sent, waits = slept\<rparr>
             else if attempt = MaxAttempts cfg
             then \<lparr>outcome = Inl (AllAttemptsFailed (MaxAttempts cfg)
                                    (Some (HTTPCause code (take 512 body)))),
                   attempts = Suc sent, waits = slept\<rparr>
             else (case ctx attempt of
                     Some ce \<Rightarrow> \<lparr>outcome = Inl (ContextError ce), attempts = Suc sent,
                                  waits = slept @ [delay]\<rparr>
                   | None \<Rightarrow> Do_loop cfg send ctx (attempt + 1) (next_delay cfg delay)
                               (Some (HTTPCause code (take 512 body))) (Suc sent)
                               (slept @ [delay])))
      else \<lparr>outcome = Inl (AllAttemptsFailed (MaxAttempts cfg) lastErr), attempts = sent,
            waits = slept\<rparr>)"
  by pat_completeness auto
termination
  by (relation "measure (\<lambda>(cfg, send, ctx, attempt, rest). nat (MaxAttempts cfg - attempt))") auto

declare Do_loop.simps [simp del]

definition Do :: "RetryConfig \<Rightarrow> (int \<Rightarrow> attempt_outcome) \<Rightarrow> (int \<Rightarrow> ctx_err option) \<Rightarrow> do_result" where
  "Do cfg send ctx =
     (let cfg' = (if MaxAttempts cfg \<le> 0 then cfg\<lparr>MaxAttempts := MaxAttempts DefaultRetry\<rparr>
                  else cfg)
      in Do_loop cfg' send ctx 1 (BaseDelay cfg') None 0 [])"

text \<open>
  The words of the claim: an attempt is retried when it yields a transport error or a
  status of at least 500; the cause it leaves; the number of attempts in force (the
  configured one when positive, otherwise the default of three); the delay before the
  wait number \<open>k\<close> as the code computes it, and as the specification describes it
  (doubled, capped at the maximum delay).
\<close>

definition retriable :: "attempt_outcome \<Rightarrow> bool" where
  "retriable out \<longleftrightarrow>
     (case out of BuildFailed e \<Rightarrow> False | TransportFailed e \<Rightarrow> True
      | Responded code body \<Rightarrow> code \<ge> 500)"

definition attempt_cause :: "attempt_outcome \<Rightarrow> cause option" where
  "attempt_cause out =
     (case out of BuildFailed e \<Rightarrow> None | TransportFailed e \<Rightarrow> Some (TransportCause e)
      | Responded code body \<Rightarrow>
          if code < 500 then None else Some (HTTPCause code (take 512 body)))"

definition effective_attempts :: "RetryConfig \<Rightarrow> int" where
  "effective_attempts cfg =
     (if MaxAttempts cfg \<le> 0 then MaxAttempts DefaultRetry else MaxAttempts cfg)"

fun delay_at :: "RetryConfig \<Rightarrow> nat \<Rightarrow> int" where
  "delay_at cfg 0 = BaseDelay cfg"
| "delay_at cfg (Suc k) = next_delay cfg (delay_at cfg k)"

fun backoff :: "RetryConfig \<Rightarrow> nat \<Rightarrow> int" where
  "backoff cfg 0 = BaseDelay cfg"
| "backoff cfg (Suc k) = min (2 * backoff cfg k) (MaxDelay cfg)"

definition delays_in_range :: "RetryConfig \<Rightarrow> bool" where
  "delays_in_range cfg \<longleftrightarrow>
     0 \<le> BaseDelay cfg \<and> BaseDelay cfg < 2 ^ 62 \<and> 0 \<le> MaxDelay cfg \<and> MaxDelay cfg < 2 ^ 62"

definition effective_config :: "RetryConfig \<Rightarrow> RetryConfig" where
  "effective_config cfg =
     (if MaxAttempts cfg \<le> 0 then cfg\<lparr>MaxAttempts := MaxAttempts DefaultRetry\<rparr> else cfg)"

text \<open>
  The configurations and servers of the tests in the retry test file: 50 ms base delay,
  200 ms maximum delay; a server that always answers 502, one that always answers 400; a
  context that is never done, and one whose deadline passes during the first wait.
\<close>

definition test_config :: RetryConfig where
  "test_config = \<lparr>MaxAttempts = 3, BaseDelay = 50000000, MaxDelay = 200000000\<rparr>"

definition zero_attempts_config :: RetryConfig where
  "zero_attempts_config = \<lparr>MaxAttempts = 0, BaseDelay = 50000000, MaxDelay = 200000000\<rparr>"

definition bad_gateway :: "int \<Rightarrow> attempt_outcome" where
  "bad_gateway k = Responded 502 ''upstream error''"

definition bad_request :: "int \<Rightarrow> attempt_outcome" where
  "bad_request k = Responded 400 []"

definition never_done :: "int \<Rightarrow> ctx_err option" where
  "never_done k = None"

definition deadline_passed :: "int \<Rightarrow> ctx_err option" where
  "deadline_passed k = Some DeadlineExceeded"

section \<open>Properties of the grid engine\<close>

lemma FindTriggeredLevel_loop_None:
  "FindTriggeredLevel_loop P k g = None \<longleftrightarrow> (\<forall>l \<in> set g. \<not> is_triggered P l)"
  by (induction g arbitrary: k) (auto simp: is_triggered_def)

lemma FindTriggeredLevel_loop_Some:
  "FindTriggeredLevel_loop P k g = Some i \<Longrightarrow>
     k \<le> i \<and> i - k < length g \<and> is_triggered P (g ! (i - k)) \<and>
     (\<forall>j < i - k. \<not> is_triggered P (g ! j))"
proof (induction g arbitrary: k)
  case Nil
  then show ?case by simp
next
  case (Cons l ls)
  show ?case
  proof (cases "is_triggered P l")
    case True
    with Cons.prems have "i = k"
      by (auto simp: is_triggered_def split: if_splits)
    with True show ?thesis by simp
  next
    case False
    with Cons.prems have rest: "FindTriggeredLevel_loop P (Suc k) ls = Some i"
      by (auto simp: is_triggered_def split: if_splits)
    from Cons.IH [OF rest]
    have ih: "Suc k \<le> i" "i - Suc k < length ls" "is_triggered P (ls ! (i - Suc k))"
      "\<forall>j < i - Suc k. \<not> is_triggered P (ls ! j)"
      by simp_all
    from ih(1) have eq: "i - k = Suc (i - Suc k)" by simp
    have "\<forall>j < i - k. \<not> is_triggered P ((l # ls) ! j)"
    proof (intro allI impI)
      fix j assume "j < i - k"
      then show "\<not> is_triggered P ((l # ls) ! j)"
        using False ih(4) eq by (cases j) auto
    qed
    with ih eq show ?thesis by simp
  qed
qed

lemma FindTriggeredLevel_loop_first:
  "i < length g \<Longrightarrow> is_triggered P (g ! i) \<Longrightarrow> (\<forall>j < i. \<not> is_triggered P (g ! j)) \<Longrightarrow>
     FindTriggeredLevel_loop P k g = Some (k + i)"
proof (induction g arbitrary: k i)
  case Nil
  then show ?case by simp
next
  case (Cons l ls)
  show ?case
  proof (cases i)
    case 0
    with Cons.prems show ?thesis by (auto simp: is_triggered_def)
  next
    case (Suc n)
    with Cons.prems have nl: "\<not> is_triggered P l" by auto
    from Suc Cons.prems have "n < length ls" "is_triggered P (ls ! n)"
      "\<forall>j < n. \<not> is_triggered P (ls ! j)"
      by auto
    from Cons.IH [OF this, of "Suc k"] nl Suc show ?thesis
      by (auto simp: is_triggered_def)
  qed
qed

text \<open>
  C2.  FindTriggeredLevel is a function of the price and the grid, so it is deterministic
  and yields at most one level.  It returns position \<open>i\<close> exactly when level \<open>i\<close> is the
  first one, in slice order, that is unfilled and satisfies the side and threshold
  condition (buy with price at most the level price, sell with price at least the level
  price); it returns none exactly when no level of the grid satisfies the condition.
\<close>

theorem FindTriggeredLevel_first_match:
  "(FindTriggeredLevel P grid = Some i \<longleftrightarrow>
      i < length grid \<and> is_triggered P (grid ! i) \<and> (\<forall>j < i. \<not> is_triggered P (grid ! j)))
   \<and> (FindTriggeredLevel P grid = None \<longleftrightarrow>
      (\<forall>i < length grid. \<not> is_triggered P (grid ! i)))"
proof -
  have a: "FindTriggeredLevel P grid = Some i \<Longrightarrow>
      i < length grid \<and> is_triggered P (grid ! i) \<and> (\<forall>j < i. \<not> is_triggered P (grid ! j))"
    using FindTriggeredLevel_loop_Some [of P 0 grid i]
    by (simp add: FindTriggeredLevel_def)
  have b: "i < length grid \<and> is_triggered P (grid ! i) \<and> (\<forall>j < i. \<not> is_triggered P (grid ! j))
      \<Longrightarrow> FindTriggeredLevel P grid = Some i"
    using FindTriggeredLevel_loop_first [of i grid P 0]
    by (simp add: FindTriggeredLevel_def)
  have c: "FindTriggeredLevel P grid = None \<longleftrightarrow>
      (\<forall>i < length grid. \<not> is_triggered P (grid ! i))"
    unfolding FindTriggeredLevel_def FindTriggeredLevel_loop_None
    by (metis in_set_conv_nth)
  from a b c show ?thesis by blast
qed

theorem FindTriggeredLevel_first_match_witness:
  "FindTriggeredLevel 2590 test_grid = Some 1
   \<and> FindTriggeredLevel 2650 test_grid = None"
proof -
  have len: "length test_grid = 4" by (simp add: test_grid_def)
  have t1: "is_triggered 2590 (test_grid ! 1)"
    by (simp add: test_grid_def mk_level_def is_triggered_def)
  have t0: "\<forall>j < (1::nat). \<not> is_triggered 2590 (test_grid ! j)"
    by (simp add: test_grid_def mk_level_def is_triggered_def)
  have n: "\<forall>i < length test_grid. \<not> is_triggered 2650 (test_grid ! i)"
  proof (intro allI impI)
    fix i assume "i < length test_grid"
    then have "i = 0 \<or> i = 1 \<or> i = 2 \<or> i = 3" using len by auto
    then show "\<not> is_triggered 2650 (test_grid ! i)"
      by (auto simp: test_grid_def mk_level_def is_triggered_def)
  qed
  from FindTriggeredLevel_first_match [of 2590 test_grid 1] len t1 t0
  have "FindTriggeredLevel 2590 test_grid = Some 1" by simp
  moreover from FindTriggeredLevel_first_match [of 2650 test_grid 0] n
  have "FindTriggeredLevel 2650 test_grid = None" by simp
  ultimately show ?thesis by simp
qed

text \<open>
  C3.  For a filled level \<open>l\<close> and a grid length \<open>L\<close>, GetOppositeLevelIndex returns
  \<open>Index l + 1\<close> for a buy and \<open>Index l - 1\<close> for a sell if and only if that index lies in
  \<open>[0, L)\<close>, and none otherwise.  resetOppositeLevel keeps the length of the grid, replaces
  the opposite level by its cleared copy (filled false, filledAt and txHash nil) only when
  that level is currently filled, and leaves every other level as it was.
\<close>

theorem opposite_level_reset:
  "(Side l = ''buy'' \<longrightarrow>
      (GetOppositeLevelIndex l L = Some (Index l + 1) \<longleftrightarrow> 0 \<le> Index l + 1 \<and> Index l + 1 < L)
      \<and> (GetOppositeLevelIndex l L = None \<longleftrightarrow> \<not> (0 \<le> Index l + 1 \<and> Index l + 1 < L)))
   \<and> (Side l = ''sell'' \<longrightarrow>
      (GetOppositeLevelIndex l L = Some (Index l - 1) \<longleftrightarrow> 0 \<le> Index l - 1 \<and> Index l - 1 < L)
      \<and> (GetOppositeLevelIndex l L = None \<longleftrightarrow> \<not> (0 \<le> Index l - 1 \<and> Index l - 1 < L)))
   \<and> length (resetOppositeLevel grid l) = length grid
   \<and> (\<forall>j < length grid.
        resetOppositeLevel grid l ! j =
          (if GetOppositeLevelIndex l (int (length grid)) = Some (int j) \<and> Filled (grid ! j)
           then (grid ! j)\<lparr>Filled := False, FilledAt := None, TxHash := None\<rparr>
           else grid ! j))"
proof -
  have idx: "Side l = ''buy'' \<longrightarrow>
      (GetOppositeLevelIndex l L = Some (Index l + 1) \<longleftrightarrow> 0 \<le> Index l + 1 \<and> Index l + 1 < L)
      \<and> (GetOppositeLevelIndex l L = None \<longleftrightarrow> \<not> (0 \<le> Index l + 1 \<and> Index l + 1 < L))"
    by (simp add: GetOppositeLevelIndex_def Let_def)
  have idx': "Side l = ''sell'' \<longrightarrow>
      (GetOppositeLevelIndex l L = Some (Index l - 1) \<longleftrightarrow> 0 \<le> Index l - 1 \<and> Index l - 1 < L)
      \<and> (GetOppositeLevelIndex l L = None \<longleftrightarrow> \<not> (0 \<le> Index l - 1 \<and> Index l - 1 < L))"
    by (simp add: GetOppositeLevelIndex_def Let_def)
  have len: "length (resetOppositeLevel grid l) = length grid"
    by (simp add: resetOppositeLevel_def Let_def split: option.splits)
  have nth: "\<forall>j < length grid.
        resetOppositeLevel grid l ! j =
          (if GetOppositeLevelIndex l (int (length grid)) = Some (int j) \<and> Filled (grid ! j)
           then (grid ! j)\<lparr>Filled := False, FilledAt := None, TxHash := None\<rparr>
           else grid ! j)"
  proof (intro allI impI)
    fix j assume j: "j < length grid"
    show "resetOppositeLevel grid l ! j =
          (if GetOppositeLevelIndex l (int (length grid)) = Some (int j) \<and> Filled (grid ! j)
           then (grid ! j)\<lparr>Filled := False, FilledAt := None, TxHash := None\<rparr>
           else grid ! j)"
    proof (cases "GetOppositeLevelIndex l (int (length grid))")
      case None
      then show ?thesis by (simp add: resetOppositeLevel_def)
    next
      case (Some idx)
      then have range: "0 \<le> idx" "idx < int (length grid)"
        by (auto simp: GetOppositeLevelIndex_def Let_def split: if_splits)
      show ?thesis
      proof (cases "idx = int j")
        case True
        with Some j show ?thesis
          by (simp add: resetOppositeLevel_def Let_def clear_fill_def)
      next
        case False
        with range have "nat idx \<noteq> j" by auto
        with Some False j show ?thesis
          by (simp add: resetOppositeLevel_def Let_def)
      qed
    qed
  qed
  from idx idx' len nth show ?thesis by blast
qed

theorem opposite_level_reset_witness:
  "GetOppositeLevelIndex (test_grid ! 1) 4 = Some 2
   \<and> GetOppositeLevelIndex (test_grid ! 3) 4 = Some 2
   \<and> GetOppositeLevelIndex (test_grid ! 0) 4 \<noteq> None
   \<and> resetOppositeLevel (test_grid[2 := (test_grid ! 2)\<lparr>Filled := True, FilledAt := Some 7,
         TxHash := Some ''0xPAPER''\<rparr>]) (test_grid ! 1) ! 2 = test_grid ! 2"
proof -
  let ?g = "test_grid[2 := (test_grid ! 2)\<lparr>Filled := True, FilledAt := Some 7,
         TxHash := Some ''0xPAPER''\<rparr>]"
  have s1: "Side (test_grid ! 1) = ''buy''" "Index (test_grid ! 1) = 1"
    by (simp_all add: test_grid_def mk_level_def)
  have s3: "Side (test_grid ! 3) = ''sell''" "Index (test_grid ! 3) = 3"
    by (simp_all add: test_grid_def mk_level_def)
  have s0: "Side (test_grid ! 0) = ''buy''" "Index (test_grid ! 0) = 0"
    by (simp_all add: test_grid_def mk_level_def)
  have len: "length ?g = 4" by (simp add: test_grid_def)
  have a: "GetOppositeLevelIndex (test_grid ! 1) 4 = Some 2"
    using opposite_level_reset [of "test_grid ! 1" 4 ?g] s1 by simp
  have b: "GetOppositeLevelIndex (test_grid ! 3) 4 = Some 2"
    using opposite_level_reset [of "test_grid ! 3" 4 ?g] s3 by simp
  have c: "GetOppositeLevelIndex (test_grid ! 0) 4 \<noteq> None"
    using opposite_level_reset [of "test_grid ! 0" 4 ?g] s0 by simp
  have f: "Filled (?g ! 2)" by (simp add: test_grid_def)
  have "resetOppositeLevel ?g (test_grid ! 1) ! 2 =
      (?g ! 2)\<lparr>Filled := False, FilledAt := None, TxHash := None\<rparr>"
    using opposite_level_reset [of "test_grid ! 1" 4 ?g] len a f by simp
  also have "\<dots> = test_grid ! 2"
    by (simp add: test_grid_def mk_level_def)
  finally have d: "resetOppositeLevel ?g (test_grid ! 1) ! 2 = test_grid ! 2" .
  from a b c d show ?thesis by simp
qed

section \<open>Properties of the midpoint-change detectors\<close>




section \<open>Properties of the risk guardian\<close>

text \<open>
  C8 as stated fails for PreTradeCheck: with every limit zero the counter is never asked,
  so a counter that fails does not block the trade.
\<close>

theorem PreTradeCheck_counter_counterexample:
  "\<not> (PreTradeCheck guardian_db_down 100 \<noteq> None \<longleftrightarrow>
        (MaxPositionSizeUSD (limits guardian_db_down) > 0
           \<and> 100 > MaxPositionSizeUSD (limits guardian_db_down))
        \<or> (MaxDailyTrades (limits guardian_db_down) > 0
           \<and> (\<exists>n. counter guardian_db_down = Some (Inr n)
                  \<and> n \<ge> MaxDailyTrades (limits guardian_db_down)))
        \<or> (\<exists>e. counter guardian_db_down = Some (Inl e)))"
  by (simp add: PreTradeCheck_def guardian_db_down_def no_limits_def)

text \<open>
  C8, amended.  PreTradeCheck blocks if and only if the position limit is positive and the
  trade value exceeds it, or the daily limit is positive and today's count has reached it,
  or the daily limit is positive and the counter fails.  PortfolioCheck trips if and only
  if the stop-loss is positive and the P&L is at most its negation, or the take-profit is
  positive and the P&L is at least it.  Hence zero thresholds disable the checks, and a P&L
  exactly at the negated stop-loss or at the take-profit trips.
\<close>

theorem guardian_checks:
  "(PreTradeCheck g tradeUsd \<noteq> None \<longleftrightarrow>
      (MaxPositionSizeUSD (limits g) > 0 \<and> tradeUsd > MaxPositionSizeUSD (limits g))
      \<or> (MaxDailyTrades (limits g) > 0
          \<and> (\<exists>n. counter g = Some (Inr n) \<and> n \<ge> MaxDailyTrades (limits g)))
      \<or> (MaxDailyTrades (limits g) > 0 \<and> (\<exists>e. counter g = Some (Inl e))))
   \<and> (PortfolioCheck g pnlPct \<noteq> None \<longleftrightarrow>
      (StopLossPercent (limits g) > 0 \<and> pnlPct \<le> - StopLossPercent (limits g))
      \<or> (TakeProfitPercent (limits g) > 0 \<and> pnlPct \<ge> TakeProfitPercent (limits g)))
   \<and> (limits g = no_limits \<longrightarrow> PreTradeCheck g tradeUsd = None \<and> PortfolioCheck g pnlPct = None)
   \<and> (StopLossPercent (limits g) > 0 \<longrightarrow> PortfolioCheck g (- StopLossPercent (limits g)) \<noteq> None)
   \<and> (TakeProfitPercent (limits g) > 0 \<longrightarrow> PortfolioCheck g (TakeProfitPercent (limits g)) \<noteq> None)"
proof -
  have pre: "PreTradeCheck g tradeUsd \<noteq> None \<longleftrightarrow>
      (MaxPositionSizeUSD (limits g) > 0 \<and> tradeUsd > MaxPositionSizeUSD (limits g))
      \<or> (MaxDailyTrades (limits g) > 0
          \<and> (\<exists>n. counter g = Some (Inr n) \<and> n \<ge> MaxDailyTrades (limits g)))
      \<or> (MaxDailyTrades (limits g) > 0 \<and> (\<exists>e. counter g = Some (Inl e)))"
  proof (cases "counter g")
    case None
    then show ?thesis by (simp add: PreTradeCheck_def)
  next
    case (Some c)
    then show ?thesis by (cases c) (auto simp: PreTradeCheck_def)
  qed
  have port: "PortfolioCheck g pnlPct \<noteq> None \<longleftrightarrow>
      (StopLossPercent (limits g) > 0 \<and> pnlPct \<le> - StopLossPercent (limits g))
      \<or> (TakeProfitPercent (limits g) > 0 \<and> pnlPct \<ge> TakeProfitPercent (limits g))"
    by (simp add: PortfolioCheck_def)
  have zero: "limits g = no_limits \<longrightarrow>
      PreTradeCheck g tradeUsd = None \<and> PortfolioCheck g pnlPct = None"
    by (simp add: PreTradeCheck_def PortfolioCheck_def no_limits_def)
  have sl: "StopLossPercent (limits g) > 0 \<longrightarrow>
      PortfolioCheck g (- StopLossPercent (limits g)) \<noteq> None"
    by (simp add: PortfolioCheck_def)
  have tp: "TakeProfitPercent (limits g) > 0 \<longrightarrow>
      PortfolioCheck g (TakeProfitPercent (limits g)) \<noteq> None"
    by (simp add: PortfolioCheck_def)
  from pre port zero sl tp show ?thesis by blast
qed

theorem guardian_checks_witness:
  "PreTradeCheck guardian_test 100 \<noteq> None
   \<and> PortfolioCheck guardian_test (- 5) \<noteq> None
   \<and> PortfolioCheck guardian_test 15 \<noteq> None
   \<and> PortfolioCheck guardian_test 14 = None
   \<and> PreTradeCheck guardian_db_down 999999 = None
   \<and> PortfolioCheck guardian_db_down (- 99) = None"
proof -
  have l: "MaxDailyTrades (limits guardian_test) = 50"
    "MaxPositionSizeUSD (limits guardian_test) = 500"
    "StopLossPercent (limits guardian_test) = 5"
    "TakeProfitPercent (limits guardian_test) = 15"
    "counter guardian_test = Some (Inr 50)"
    by (simp_all add: guardian_test_def)
  have z: "limits guardian_db_down = no_limits"
    by (simp add: guardian_db_down_def)
  from guardian_checks [of guardian_test 100 14] l
  have a: "PreTradeCheck guardian_test 100 \<noteq> None"
    and b: "PortfolioCheck guardian_test (- 5) \<noteq> None"
    and c: "PortfolioCheck guardian_test 15 \<noteq> None"
    and d: "PortfolioCheck guardian_test 14 = None"
    by simp_all
  from guardian_checks [of guardian_db_down 999999 "- 99"] z
  have e: "PreTradeCheck guardian_db_down 999999 = None"
    and f: "PortfolioCheck guardian_db_down (- 99) = None"
    by simp_all
  from a b c d e f show ?thesis by blast
qed


section \<open>Properties of paper execution\<close>

lemma executePaperSwap_buy:
  assumes "USDCBalance pw \<ge> usdc"
  shows "executePaperSwap maxPct u now pw level price ''buy'' q usdc =
           Inr (RecordTrade
                  (DeductGas (pw\<lparr>USDCBalance := USDCBalance pw - usdc,
                       ETHBalance := ETHBalance pw + q * (1 - randomSlippage u maxPct)\<rparr>)
                     defaultPaperGasCost) now
                  \<lparr>tradeID = 0, tradeTimestamp = 0, tradeSide = ''buy'',
                   tradeGridLevel = Index level, TriggerPrice = Price level,
                   ExecutionPrice = price, ETHAmount = q * (1 - randomSlippage u maxPct),
                   USDCAmount = usdc, SlippagePct = randomSlippage u maxPct * 100,
                   GasCost = defaultPaperGasCost, BalanceAfter = \<lparr>ETH = 0, USDC = 0\<rparr>\<rparr>,
                (''buy'', now), randomSlippage u maxPct * 100, defaultPaperGasCost)"
  using assms by (simp add: executePaperSwap_def ExecuteBuy_def Let_def)

lemma RecordTrade_balances:
  "ETHBalance (RecordTrade pw now t) = ETHBalance pw"
  "USDCBalance (RecordTrade pw now t) = USDCBalance pw"
  "Trades (RecordTrade pw now t) = Trades pw @
     [t\<lparr>tradeID := int (length (Trades pw)) + 1, tradeTimestamp := now,
        BalanceAfter := \<lparr>ETH = ETHBalance pw, USDC = USDCBalance pw\<rparr>\<rparr>]"
  by (simp_all add: RecordTrade_def)

lemma DeductGas_balances:
  "ETHBalance (DeductGas pw g) = ETHBalance pw - g"
  "USDCBalance (DeductGas pw g) = USDCBalance pw"
  "Trades (DeductGas pw g) = Trades pw"
  by (simp_all add: DeductGas_def)

lemma executeSwap_paper_buy:
  assumes "Quantity level * price \<le> USDCBalance pw"
  shows "\<exists>pw' r. executeSwap_paper maxPct u now pw level price ''buy'' = Inr (pw', r)
         \<and> USDCBalance pw' = USDCBalance pw - Quantity level * price
         \<and> ETHBalance pw' =
             ETHBalance pw + Quantity level * (1 - randomSlippage u maxPct)
               - defaultPaperGasCost
         \<and> length (Trades pw') = Suc (length (Trades pw))
         \<and> take (length (Trades pw)) (Trades pw') = Trades pw"
  unfolding executeSwap_paper_def Let_def
  by (simp add: executePaperSwap_buy [OF assms] RecordTrade_balances DeductGas_balances)

text \<open>
  C4.  The claim fails on the buy path.  A wallet with no asset balance and 1000 quote
  units has non-negative balances; a buy of 0.004 asset units at price 2500 (a budget of 10
  quote units) with slippage sample zero completes, and the constant gas charge of 0.005
  leaves an asset balance of \<open>-0.001\<close>.  The sell path refuses a trade whose amount plus
  gas exceeds the asset balance; the buy path has no such test.  The trade list does grow
  by exactly the one recorded trade.
\<close>

theorem paper_buy_negative_asset_balance:
  "0 \<le> ETHBalance (new_wallet 0 1000) \<and> 0 \<le> USDCBalance (new_wallet 0 1000)
   \<and> (\<exists>pw' r. executeSwap_paper (1 / 2) 0 now (new_wallet 0 1000) level_2500 2500 ''buy''
                 = Inr (pw', r)
        \<and> ETHBalance pw' = - 1 / 1000 \<and> ETHBalance pw' < 0
        \<and> USDCBalance pw' = 990 \<and> length (Trades pw') = 1)"
proof -
  have q: "Quantity level_2500 * 2500 = 10" "Quantity level_2500 = 4 / 1000"
    by (simp_all add: level_2500_def)
  have w: "ETHBalance (new_wallet 0 1000) = 0" "USDCBalance (new_wallet 0 1000) = 1000"
    "Trades (new_wallet 0 1000) = []"
    by (simp_all add: new_wallet_def)
  have u: "Quantity level_2500 * 2500 \<le> USDCBalance (new_wallet 0 1000)"
    by (simp add: q w)
  have s: "randomSlippage 0 (1 / 2) = 0"
    by (simp add: randomSlippage_def)
  from executeSwap_paper_buy [OF u, of "1 / 2" 0 now]
  obtain pw' r where
    run: "executeSwap_paper (1 / 2) 0 now (new_wallet 0 1000) level_2500 2500 ''buy''
            = Inr (pw', r)"
    and usdc: "USDCBalance pw' = USDCBalance (new_wallet 0 1000) - Quantity level_2500 * 2500"
    and eth: "ETHBalance pw' = ETHBalance (new_wallet 0 1000)
                + Quantity level_2500 * (1 - randomSlippage 0 (1 / 2)) - defaultPaperGasCost"
    and len: "length (Trades pw') = Suc (length (Trades (new_wallet 0 1000)))"
    by blast
  from usdc have usdc': "USDCBalance pw' = 990" by (simp only: q w)
  from eth have eth': "ETHBalance pw' = - 1 / 1000"
    by (simp only: q w s defaultPaperGasCost_def) simp
  from len have len': "length (Trades pw') = 1" by (simp add: w)
  from eth' have neg: "ETHBalance pw' < 0" by simp
  from run usdc' eth' neg len' have ex:
    "\<exists>pw' r. executeSwap_paper (1 / 2) 0 now (new_wallet 0 1000) level_2500 2500 ''buy''
                 = Inr (pw', r)
        \<and> ETHBalance pw' = - 1 / 1000 \<and> ETHBalance pw' < 0
        \<and> USDCBalance pw' = 990 \<and> length (Trades pw') = 1"
    by blast
  have nn: "0 \<le> ETHBalance (new_wallet 0 1000) \<and> 0 \<le> USDCBalance (new_wallet 0 1000)"
    by (simp add: w)
  from nn ex show ?thesis by blast
qed

text \<open>
  C5.  The slippage sample lies in \<open>[0, paperSlippagePct / 100]\<close> for a slippage setting
  that is not negative.  A buy that the wallet can pay debits \<open>quantity * price\<close> quote
  units, credits \<open>quantity * (1 - slip)\<close> asset units and then deducts the constant gas
  charge of 0.005.  For the wallet of 1.0 asset and 1000 quote units, level 0 at execution
  price 2000, quantity 0.05 and slippage sample 0.004 (the sample 0.8 under the default
  setting of 0.5 percent) the debit is 100, the credit 0.0498, and the balances afterwards
  are 1.0448 and 900.
\<close>

theorem paper_buy_effect:
  "(0 \<le> u \<and> u < 1 \<and> 0 \<le> maxPct \<longrightarrow>
      0 \<le> randomSlippage u maxPct \<and> randomSlippage u maxPct \<le> maxPct / 100)
   \<and> (Quantity level * price \<le> USDCBalance pw \<longrightarrow>
      (\<exists>pw' r. executeSwap_paper maxPct u now pw level price ''buy'' = Inr (pw', r)
         \<and> USDCBalance pw' = USDCBalance pw - Quantity level * price
         \<and> ETHBalance pw' =
             ETHBalance pw + Quantity level * (1 - randomSlippage u maxPct)
               - defaultPaperGasCost))
   \<and> randomSlippage (8 / 10) (1 / 2) = 4 / 1000
   \<and> Quantity level_2000 * 2000 = 100
   \<and> Quantity level_2000 * (1 - randomSlippage (8 / 10) (1 / 2)) = 498 / 10000
   \<and> defaultPaperGasCost = 5 / 1000
   \<and> (\<exists>pw' r. executeSwap_paper (1 / 2) (8 / 10) now (new_wallet 1 1000) level_2000 2000 ''buy''
                 = Inr (pw', r)
        \<and> ETHBalance pw' = 10448 / 10000 \<and> USDCBalance pw' = 900)"
proof -
  have slip: "0 \<le> u \<and> u < 1 \<and> 0 \<le> maxPct \<longrightarrow>
      0 \<le> randomSlippage u maxPct \<and> randomSlippage u maxPct \<le> maxPct / 100"
  proof
    assume a: "0 \<le> u \<and> u < 1 \<and> 0 \<le> maxPct"
    then have "0 \<le> u * maxPct" by simp
    moreover from a have "u * maxPct \<le> 1 * maxPct"
      by (intro mult_right_mono) simp_all
    ultimately show "0 \<le> randomSlippage u maxPct \<and> randomSlippage u maxPct \<le> maxPct / 100"
      by (simp add: randomSlippage_def divide_right_mono)
  qed
  have buy: "Quantity level * price \<le> USDCBalance pw \<longrightarrow>
      (\<exists>pw' r. executeSwap_paper maxPct u now pw level price ''buy'' = Inr (pw', r)
         \<and> USDCBalance pw' = USDCBalance pw - Quantity level * price
         \<and> ETHBalance pw' =
             ETHBalance pw + Quantity level * (1 - randomSlippage u maxPct)
               - defaultPaperGasCost)"
    using executeSwap_paper_buy [of level price pw maxPct u now] by blast
  have s: "randomSlippage (8 / 10) (1 / 2) = 4 / 1000"
    by (simp add: randomSlippage_def)
  have d: "Quantity level_2000 * 2000 = 100"
    by (simp add: level_2000_def)
  have c: "Quantity level_2000 * (1 - randomSlippage (8 / 10) (1 / 2)) = 498 / 10000"
    by (simp add: randomSlippage_def level_2000_def)
  have g: "defaultPaperGasCost = 5 / 1000"
    by (simp add: defaultPaperGasCost_def)
  have w: "ETHBalance (new_wallet 1 1000) = 1" "USDCBalance (new_wallet 1 1000) = 1000"
    by (simp_all add: new_wallet_def)
  have u: "Quantity level_2000 * 2000 \<le> USDCBalance (new_wallet 1 1000)"
    by (simp only: d w)
  from executeSwap_paper_buy [OF u, of "1 / 2" "8 / 10" now]
  obtain pw' r where
    run: "executeSwap_paper (1 / 2) (8 / 10) now (new_wallet 1 1000) level_2000 2000 ''buy''
            = Inr (pw', r)"
    and usdc: "USDCBalance pw' = USDCBalance (new_wallet 1 1000) - Quantity level_2000 * 2000"
    and eth: "ETHBalance pw' = ETHBalance (new_wallet 1 1000)
                + Quantity level_2000 * (1 - randomSlippage (8 / 10) (1 / 2))
                - defaultPaperGasCost"
    by blast
  from usdc have usdc': "USDCBalance pw' = 900" by (simp only: d w)
  from eth have eth': "ETHBalance pw' = 10448 / 10000" by (simp only: c g w)
  from run usdc' eth' have ex:
    "\<exists>pw' r. executeSwap_paper (1 / 2) (8 / 10) now (new_wallet 1 1000) level_2000 2000 ''buy''
                 = Inr (pw', r)
        \<and> ETHBalance pw' = 10448 / 10000 \<and> USDCBalance pw' = 900"
    by blast
  from slip buy s d c g ex show ?thesis by blast
qed

theorem paper_buy_effect_witness:
  "0 \<le> randomSlippage (8 / 10) (1 / 2) \<and> randomSlippage (8 / 10) (1 / 2) \<le> (1 / 2) / 100
   \<and> (\<exists>pw' r. executeSwap_paper (1 / 2) (8 / 10) 7 (new_wallet 1 1000) level_2000 2000 ''buy''
                 = Inr (pw', r)
        \<and> USDCBalance pw' = USDCBalance (new_wallet 1 1000) - Quantity level_2000 * 2000
        \<and> ETHBalance pw' =
            ETHBalance (new_wallet 1 1000)
              + Quantity level_2000 * (1 - randomSlippage (8 / 10) (1 / 2))
              - defaultPaperGasCost)"
proof -
  have h1: "(0::real) \<le> 8 / 10 \<and> (8 / 10 :: real) < 1 \<and> (0::real) \<le> 1 / 2" by simp
  have h2: "Quantity level_2000 * 2000 \<le> USDCBalance (new_wallet 1 1000)"
    by (simp add: level_2000_def new_wallet_def)
  from paper_buy_effect [of "8 / 10" "1 / 2" level_2000 2000 "new_wallet 1 1000" 7] h1 h2
  show ?thesis by blast
qed

section \<open>Properties of the read API middleware\<close>

lemma TrimPrefix_Bearer:
  "(TrimPrefix auth ''Bearer '' \<noteq> auth \<and> TrimPrefix auth ''Bearer '' = key)
     \<longleftrightarrow> auth = ''Bearer '' @ key"
proof
  assume a: "TrimPrefix auth ''Bearer '' \<noteq> auth \<and> TrimPrefix auth ''Bearer '' = key"
  then have p: "take (length ''Bearer '') auth = ''Bearer ''"
    by (auto simp: TrimPrefix_def split: if_splits)
  with a have "drop (length ''Bearer '') auth = key"
    by (auto simp: TrimPrefix_def split: if_splits)
  with p show "auth = ''Bearer '' @ key"
    by (metis append_take_drop_id)
next
  assume "auth = ''Bearer '' @ key"
  then show "TrimPrefix auth ''Bearer '' \<noteq> auth \<and> TrimPrefix auth ''Bearer '' = key"
    by (simp add: TrimPrefix_def)
qed

lemma authMiddleware_cases:
  "authMiddleware key next r w =
     (if key = [] \<or> reqPath r = ''/health'' \<or> reqAuthorization r = ''Bearer '' @ key
      then next r w
      else writeError w 401
        (if reqAuthorization r = [] then ''missing Authorization header''
         else ''invalid API key''))"
proof (cases "key = [] \<or> reqPath r = ''/health''")
  case True
  then show ?thesis by (auto simp: authMiddleware_def)
next
  case False
  show ?thesis
  proof (cases "reqAuthorization r = []")
    case True
    with False show ?thesis by (simp add: authMiddleware_def)
  next
    case ne: False
    show ?thesis
      using False ne TrimPrefix_Bearer [of "reqAuthorization r" key]
      by (auto simp: authMiddleware_def Let_def)
  qed
qed

lemma writeError_status:
  "rwStatus w = None \<Longrightarrow> rwStatus (writeError w code msg) = Some code"
  "rwHeader (writeError w code msg) = (rwHeader w)(''Content-Type'' \<mapsto> ''application/json'')"
  by (simp_all add: writeError_def writeJSON_def WriteHeader_def HeaderSet_def Let_def)

lemma corsMiddleware_cases:
  "corsMiddleware next allowOrigin r w =
     (if reqMethod r = ''OPTIONS'' then WriteHeader 200 (cors_headers allowOrigin w)
      else next r (cors_headers allowOrigin w))"
  by (simp add: corsMiddleware_def cors_headers_def Let_def)

lemma cors_headers_lookup:
  "rwHeader (cors_headers allowOrigin w) ''Access-Control-Allow-Origin'' =
     Some (if allowOrigin = [] then ''*'' else allowOrigin)"
  "rwHeader (cors_headers allowOrigin w) ''Access-Control-Allow-Methods'' = Some ''GET, OPTIONS''"
  "rwHeader (cors_headers allowOrigin w) ''Access-Control-Allow-Headers'' =
     Some ''Content-Type, Authorization''"
  "rwStatus (cors_headers allowOrigin w) = rwStatus w"
  "rwBody (cors_headers allowOrigin w) = rwBody w"
  by (simp_all add: cors_headers_def HeaderSet_def)

text \<open>
  C9 as stated fails for the handler of the API: the auth middleware wraps the CORS
  middleware, so with key \<open>s\<close> a preflight OPTIONS request to /v1/prices/latest, which
  carries no Authorization header, is answered 401 and gets no
  Access-Control-Allow-Origin header.
\<close>

theorem preflight_unauthorized_counterexample:
  "reqMethod preflight = ''OPTIONS''
   \<and> rwStatus (api_handler ''s'' [] inner_ok preflight new_writer) = Some 401
   \<and> rwHeader (api_handler ''s'' [] inner_ok preflight new_writer)
        ''Access-Control-Allow-Origin'' = None"
proof -
  have m: "reqMethod preflight = ''OPTIONS''" "reqPath preflight \<noteq> ''/health''"
    "reqAuthorization preflight = []"
    by (simp_all add: preflight_def)
  have e: "api_handler ''s'' [] inner_ok preflight new_writer =
      writeError new_writer 401 ''missing Authorization header''"
    unfolding api_handler_def authMiddleware_cases using m by simp
  have s: "rwStatus new_writer = None" by (simp add: new_writer_def)
  show ?thesis
    unfolding e using m(1) writeError_status(1) [OF s]
    by (simp add: writeError_status(2) new_writer_def)
qed

text \<open>
  C9, amended.  With an empty key the auth middleware passes every request to the next
  handler, and so it does for every request to /health.  With a key set, a request to any
  other path is passed on when its Authorization header is exactly \<open>Bearer <key>\<close> and is
  otherwise answered 401 by the middleware itself, whatever the next handler is; in
  particular \<open>Basic <key>\<close> yields 401.  The CORS middleware answers every OPTIONS request
  that reaches it with 200 and the three Access-Control-Allow headers set, by an
  expression in which the inner handler does not occur.  In the handler of the API, where
  the auth middleware wraps the CORS middleware, an OPTIONS request gets that answer when
  the key is empty, the path is /health or the bearer token is right, and is answered 401
  with the Access-Control-Allow-Origin header untouched otherwise.
\<close>

theorem api_auth_and_cors:
  "authMiddleware [] next r w = next r w
   \<and> (reqPath r = ''/health'' \<longrightarrow> authMiddleware key next r w = next r w)
   \<and> (key \<noteq> [] \<and> reqPath r \<noteq> ''/health'' \<longrightarrow>
        (reqAuthorization r = ''Bearer '' @ key \<longrightarrow> authMiddleware key next r w = next r w)
        \<and> (reqAuthorization r \<noteq> ''Bearer '' @ key \<longrightarrow>
             (\<exists>msg. \<forall>next'. authMiddleware key next' r w = writeError w 401 msg)
             \<and> (rwStatus w = None \<longrightarrow> rwStatus (authMiddleware key next r w) = Some 401))
        \<and> (rwStatus w = None \<longrightarrow>
             rwStatus (authMiddleware key next (r\<lparr>reqAuthorization := ''Basic '' @ key\<rparr>) w)
               = Some 401))
   \<and> (reqMethod r = ''OPTIONS'' \<longrightarrow>
        (\<forall>next'. corsMiddleware next' origin r w = WriteHeader 200 (cors_headers origin w))
        \<and> (rwStatus w = None \<longrightarrow> rwStatus (corsMiddleware next origin r w) = Some 200)
        \<and> rwHeader (corsMiddleware next origin r w) ''Access-Control-Allow-Origin''
             = Some (if origin = [] then ''*'' else origin)
        \<and> rwHeader (corsMiddleware next origin r w) ''Access-Control-Allow-Methods''
             = Some ''GET, OPTIONS''
        \<and> rwHeader (corsMiddleware next origin r w) ''Access-Control-Allow-Headers''
             = Some ''Content-Type, Authorization'')
   \<and> (reqMethod r = ''OPTIONS''
        \<and> (key = [] \<or> reqPath r = ''/health'' \<or> reqAuthorization r = ''Bearer '' @ key) \<longrightarrow>
        api_handler key origin next r w = WriteHeader 200 (cors_headers origin w))
   \<and> (reqMethod r = ''OPTIONS'' \<and> key \<noteq> [] \<and> reqPath r \<noteq> ''/health''
        \<and> reqAuthorization r \<noteq> ''Bearer '' @ key \<and> rwStatus w = None \<longrightarrow>
        rwStatus (api_handler key origin next r w) = Some 401
        \<and> rwHeader (api_handler key origin next r w) ''Access-Control-Allow-Origin''
             = rwHeader w ''Access-Control-Allow-Origin'')"
proof -
  have c1: "authMiddleware [] next r w = next r w"
    by (simp add: authMiddleware_cases)
  have c2: "reqPath r = ''/health'' \<longrightarrow> authMiddleware key next r w = next r w"
    by (simp add: authMiddleware_cases)
  have c3a: "key \<noteq> [] \<and> reqPath r \<noteq> ''/health'' \<longrightarrow>
        (reqAuthorization r = ''Bearer '' @ key \<longrightarrow> authMiddleware key next r w = next r w)"
    by (simp add: authMiddleware_cases)
  have c3b: "key \<noteq> [] \<and> reqPath r \<noteq> ''/health'' \<longrightarrow>
        (reqAuthorization r \<noteq> ''Bearer '' @ key \<longrightarrow>
             (\<exists>msg. \<forall>next'. authMiddleware key next' r w = writeError w 401 msg)
             \<and> (rwStatus w = None \<longrightarrow> rwStatus (authMiddleware key next r w) = Some 401))"
    by (auto simp: authMiddleware_cases writeError_status)
  have basic: "''Basic '' @ key \<noteq> ''Bearer '' @ key"
    by simp
  have c3c: "key \<noteq> [] \<and> reqPath r \<noteq> ''/health'' \<longrightarrow>
        (rwStatus w = None \<longrightarrow>
             rwStatus (authMiddleware key next (r\<lparr>reqAuthorization := ''Basic '' @ key\<rparr>) w)
               = Some 401)"
    using basic by (simp add: authMiddleware_cases writeError_status)
  have c4: "reqMethod r = ''OPTIONS'' \<longrightarrow>
        (\<forall>next'. corsMiddleware next' origin r w = WriteHeader 200 (cors_headers origin w))
        \<and> (rwStatus w = None \<longrightarrow> rwStatus (corsMiddleware next origin r w) = Some 200)
        \<and> rwHeader (corsMiddleware next origin r w) ''Access-Control-Allow-Origin''
             = Some (if origin = [] then ''*'' else origin)
        \<and> rwHeader (corsMiddleware next origin r w) ''Access-Control-Allow-Methods''
             = Some ''GET, OPTIONS''
        \<and> rwHeader (corsMiddleware next origin r w) ''Access-Control-Allow-Headers''
             = Some ''Content-Type, Authorization''"
    by (simp add: corsMiddleware_cases WriteHeader_def cors_headers_lookup)
  have c5: "reqMethod r = ''OPTIONS''
        \<and> (key = [] \<or> reqPath r = ''/health'' \<or> reqAuthorization r = ''Bearer '' @ key) \<longrightarrow>
        api_handler key origin next r w = WriteHeader 200 (cors_headers origin w)"
    by (auto simp: api_handler_def authMiddleware_cases corsMiddleware_cases)
  have c6: "reqMethod r = ''OPTIONS'' \<and> key \<noteq> [] \<and> reqPath r \<noteq> ''/health''
        \<and> reqAuthorization r \<noteq> ''Bearer '' @ key \<and> rwStatus w = None \<longrightarrow>
        rwStatus (api_handler key origin next r w) = Some 401
        \<and> rwHeader (api_handler key origin next r w) ''Access-Control-Allow-Origin''
             = rwHeader w ''Access-Control-Allow-Origin''"
    by (simp add: api_handler_def authMiddleware_cases writeError_status)
  from c1 c2 c3a c3b c3c c4 c5 c6 show ?thesis by blast
qed

theorem api_auth_and_cors_witness:
  "authMiddleware [] inner_ok (stats_request []) new_writer = inner_ok (stats_request []) new_writer
   \<and> authMiddleware ''s'' inner_ok (stats_request ''Bearer s'') new_writer
       = inner_ok (stats_request ''Bearer s'') new_writer
   \<and> rwStatus (authMiddleware ''s'' inner_ok (stats_request []) new_writer) = Some 401
   \<and> rwStatus (authMiddleware ''s'' inner_ok (stats_request ''Basic s'') new_writer) = Some 401
   \<and> corsMiddleware inner_ok [] preflight new_writer = WriteHeader 200 (cors_headers [] new_writer)
   \<and> rwStatus (corsMiddleware inner_ok [] preflight new_writer) = Some 200
   \<and> rwHeader (corsMiddleware inner_ok [] preflight new_writer) ''Access-Control-Allow-Origin''
       = Some ''*''
   \<and> api_handler [] [] inner_ok preflight new_writer = WriteHeader 200 (cors_headers [] new_writer)
   \<and> rwStatus (api_handler ''s'' [] inner_ok preflight new_writer) = Some 401"
proof -
  have w: "rwStatus new_writer = None" by (simp add: new_writer_def)
  have k: "''s'' \<noteq> ([] :: string)" by simp
  have p: "reqPath (stats_request a) \<noteq> ''/health''" "reqAuthorization (stats_request a) = a"
    for a
    by (simp_all add: stats_request_def)
  have o: "reqMethod preflight = ''OPTIONS''" "reqPath preflight \<noteq> ''/health''"
    "reqAuthorization preflight = []"
    by (simp_all add: preflight_def)
  have upd: "(stats_request [])\<lparr>reqAuthorization := ''Basic '' @ ''s''\<rparr> = stats_request ''Basic s''"
    by (simp add: stats_request_def)
  from api_auth_and_cors [of inner_ok "stats_request []" new_writer "''s''" "[]"] w k p upd
  have a: "authMiddleware [] inner_ok (stats_request []) new_writer
             = inner_ok (stats_request []) new_writer"
    and c: "rwStatus (authMiddleware ''s'' inner_ok (stats_request []) new_writer) = Some 401"
    and d: "rwStatus (authMiddleware ''s'' inner_ok (stats_request ''Basic s'') new_writer)
             = Some 401"
    by simp_all
  from api_auth_and_cors [of inner_ok "stats_request ''Bearer s''" new_writer "''s''" "[]"] k p
  have b: "authMiddleware ''s'' inner_ok (stats_request ''Bearer s'') new_writer
             = inner_ok (stats_request ''Bearer s'') new_writer"
    by simp
  note t = api_auth_and_cors [of inner_ok preflight new_writer "[]" "[]"]
  from t o have e: "corsMiddleware inner_ok [] preflight new_writer
             = WriteHeader 200 (cors_headers [] new_writer)"
    by blast
  from t o w have f: "rwStatus (corsMiddleware inner_ok [] preflight new_writer) = Some 200"
    by blast
  from t o have "rwHeader (corsMiddleware inner_ok [] preflight new_writer)
              ''Access-Control-Allow-Origin'' = Some (if ([]::string) = [] then ''*'' else [])"
    by blast
  then have g: "rwHeader (corsMiddleware inner_ok [] preflight new_writer)
              ''Access-Control-Allow-Origin'' = Some ''*''"
    by simp
  from t o have h: "api_handler [] [] inner_ok preflight new_writer
              = WriteHeader 200 (cors_headers [] new_writer)"
    by blast
  from api_auth_and_cors [of inner_ok preflight new_writer "''s''" "[]"] w o k
  have i: "rwStatus (api_handler ''s'' [] inner_ok preflight new_writer) = Some 401"
    by simp
  from a b c d e f g h i show ?thesis by blast
qed

section \<open>Properties of the S/R client cache\<close>

lemma passes_validation_iff:
  "passes_validation r \<longleftrightarrow>
     \<not> (IsNaN (resSupport r) \<or> IsNaN (resResistance r) \<or> IsNaN (resMidpoint r))
     \<and> \<not> f64_ge (resSupport r) (resResistance r)"
  by (cases "resSupport r"; cases "resResistance r"; cases "resMidpoint r")
     (auto simp: passes_validation_def)

lemma FetchSupportResistance_outcome:
  "FetchSupportResistance d force now q t1 t2 =
     (if \<not> force \<and> cachedResult d \<noteq> None \<and> now - lastFetch d < cacheTTL d
      then (Inr (the (cachedResult d)), d)
      else case q of
        Inl err \<Rightarrow> (Inl (QueryError err), d)
      | Inr [] \<Rightarrow> (Inl NoData, d)
      | Inr (r # rs) \<Rightarrow>
          if passes_validation (row_result d r t1)
          then (Inr (row_result d r t1),
                d\<lparr>cachedResult := Some (row_result d r t1), lastFetch := t2\<rparr>)
          else if IsNaN (resSupport (row_result d r t1)) \<or> IsNaN (resResistance (row_result d r t1))
                  \<or> IsNaN (resMidpoint (row_result d r t1))
          then (Inl InvalidData, d)
          else (Inl (InvalidRange (resSupport (row_result d r t1))
                       (resResistance (row_result d r t1))), d))"
  by (auto simp: FetchSupportResistance_def passes_validation_iff Let_def
      split: sum.splits list.splits)

text \<open>
  C10.  Whenever FetchSupportResistance returns an error the client, and with it the
  cached result and its fetch time, is unchanged.  Whenever the client has changed, the
  call returned a result that passes validation, and the change is exactly that this
  result is now cached with the new fetch time.  Under a forced refresh the call fails
  exactly when the query fails, returns no rows, or returns a first row that does not pass
  validation, and succeeds with the cache updated otherwise.
\<close>

theorem cache_updated_only_after_validation:
  "(\<forall>e. fst (FetchSupportResistance d force now q t1 t2) = Inl e \<longrightarrow>
        snd (FetchSupportResistance d force now q t1 t2) = d
        \<and> cachedResult (snd (FetchSupportResistance d force now q t1 t2)) = cachedResult d
        \<and> lastFetch (snd (FetchSupportResistance d force now q t1 t2)) = lastFetch d)
   \<and> (snd (FetchSupportResistance d force now q t1 t2) \<noteq> d \<longrightarrow>
        (\<exists>r. fst (FetchSupportResistance d force now q t1 t2) = Inr r \<and> passes_validation r
           \<and> snd (FetchSupportResistance d force now q t1 t2)
               = d\<lparr>cachedResult := Some r, lastFetch := t2\<rparr>))
   \<and> (\<forall>err. FetchSupportResistance d True now (Inl err) t1 t2 = (Inl (QueryError err), d))
   \<and> FetchSupportResistance d True now (Inr []) t1 t2 = (Inl NoData, d)
   \<and> (\<forall>r rs. \<not> passes_validation (row_result d r t1) \<longrightarrow>
        (\<exists>e. FetchSupportResistance d True now (Inr (r # rs)) t1 t2 = (Inl e, d)))
   \<and> (\<forall>r rs. passes_validation (row_result d r t1) \<longrightarrow>
        FetchSupportResistance d True now (Inr (r # rs)) t1 t2
          = (Inr (row_result d r t1),
             d\<lparr>cachedResult := Some (row_result d r t1), lastFetch := t2\<rparr>))"
proof -
  let ?f = "FetchSupportResistance d force now q t1 t2"
  have err: "\<forall>e. fst ?f = Inl e \<longrightarrow>
      snd ?f = d \<and> cachedResult (snd ?f) = cachedResult d \<and> lastFetch (snd ?f) = lastFetch d"
    by (auto simp: FetchSupportResistance_outcome split: sum.splits list.splits if_splits)
  have chg: "snd ?f \<noteq> d \<longrightarrow>
      (\<exists>r. fst ?f = Inr r \<and> passes_validation r
          \<and> snd ?f = d\<lparr>cachedResult := Some r, lastFetch := t2\<rparr>)"
    by (auto simp: FetchSupportResistance_outcome split: sum.splits list.splits if_splits)
  have f1: "\<forall>err. FetchSupportResistance d True now (Inl err) t1 t2 = (Inl (QueryError err), d)"
    by (simp add: FetchSupportResistance_outcome)
  have f2: "FetchSupportResistance d True now (Inr []) t1 t2 = (Inl NoData, d)"
    by (simp add: FetchSupportResistance_outcome)
  have f3: "\<forall>r rs. \<not> passes_validation (row_result d r t1) \<longrightarrow>
        (\<exists>e. FetchSupportResistance d True now (Inr (r # rs)) t1 t2 = (Inl e, d))"
    by (simp add: FetchSupportResistance_outcome)
  have f4: "\<forall>r rs. passes_validation (row_result d r t1) \<longrightarrow>
        FetchSupportResistance d True now (Inr (r # rs)) t1 t2
          = (Inr (row_result d r t1),
             d\<lparr>cachedResult := Some (row_result d r t1), lastFetch := t2\<rparr>)"
    by (simp add: FetchSupportResistance_outcome)
  from err chg f1 f2 f3 f4 show ?thesis by blast
qed

theorem cache_updated_only_after_validation_witness:
  "snd (FetchSupportResistance warm_client True 2000 (Inl ''timeout'') 2001 2002) = warm_client
   \<and> cachedResult (snd (FetchSupportResistance warm_client True 2000
        (Inr [row_of NaN (F64 3100) (F64 2800)]) 2001 2002)) = Some cached_sr
   \<and> lastFetch (snd (FetchSupportResistance warm_client True 2000
        (Inr [row_of (F64 3100) (F64 2500) (F64 2800)]) 2001 2002)) = 10
   \<and> cachedResult (snd (FetchSupportResistance warm_client True 2000
        (Inr [row_of (F64 2500) (F64 3100) (F64 2800)]) 2001 2002))
       = Some (row_result warm_client (row_of (F64 2500) (F64 3100) (F64 2800)) 2001)"
proof -
  have c: "cachedResult warm_client = Some cached_sr" "lastFetch warm_client = 10"
    by (simp_all add: warm_client_def)
  have v1: "\<not> passes_validation (row_result warm_client (row_of NaN (F64 3100) (F64 2800)) 2001)"
    by (simp add: passes_validation_def row_result_def row_of_def jsonFloat_def)
  have v2: "\<not> passes_validation
      (row_result warm_client (row_of (F64 3100) (F64 2500) (F64 2800)) 2001)"
    by (simp add: passes_validation_def row_result_def row_of_def jsonFloat_def)
  have v3: "passes_validation
      (row_result warm_client (row_of (F64 2500) (F64 3100) (F64 2800)) 2001)"
    by (simp add: passes_validation_def row_result_def row_of_def jsonFloat_def)
  note t = cache_updated_only_after_validation
    [of warm_client True 2000 "Inl ''timeout''" 2001 2002]
  from t have a: "snd (FetchSupportResistance warm_client True 2000 (Inl ''timeout'') 2001 2002)
      = warm_client"
    by simp
  from t v1 obtain e1 where
    "FetchSupportResistance warm_client True 2000
        (Inr [row_of NaN (F64 3100) (F64 2800)]) 2001 2002 = (Inl e1, warm_client)"
    by blast
  then have b: "cachedResult (snd (FetchSupportResistance warm_client True 2000
        (Inr [row_of NaN (F64 3100) (F64 2800)]) 2001 2002)) = Some cached_sr"
    by (simp add: c)
  from t v2 obtain e2 where
    "FetchSupportResistance warm_client True 2000
        (Inr [row_of (F64 3100) (F64 2500) (F64 2800)]) 2001 2002 = (Inl e2, warm_client)"
    by blast
  then have d: "lastFetch (snd (FetchSupportResistance warm_client True 2000
        (Inr [row_of (F64 3100) (F64 2500) (F64 2800)]) 2001 2002)) = 10"
    by (simp add: c)
  from t v3 have
    "FetchSupportResistance warm_client True 2000
        (Inr [row_of (F64 2500) (F64 3100) (F64 2800)]) 2001 2002
      = (Inr (row_result warm_client (row_of (F64 2500) (F64 3100) (F64 2800)) 2001),
         warm_client\<lparr>cachedResult :=
             Some (row_result warm_client (row_of (F64 2500) (F64 3100) (F64 2800)) 2001),
           lastFetch := 2002\<rparr>)"
    by blast
  then have e: "cachedResult (snd (FetchSupportResistance warm_client True 2000
        (Inr [row_of (F64 2500) (F64 3100) (F64 2800)]) 2001 2002))
       = Some (row_result warm_client (row_of (F64 2500) (F64 3100) (F64 2800)) 2001)"
    by simp
  from a b d e show ?thesis by blast
qed

section \<open>Properties of the retry executor\<close>

lemma Do_loop_retry:
  assumes "attempt < MaxAttempts cfg" "retriable (send attempt)" "ctx attempt = None"
  shows "Do_loop cfg send ctx attempt delay lastErr sent slept =
         Do_loop cfg send ctx (attempt + 1) (next_delay cfg delay) (attempt_cause (send attempt))
           (Suc sent) (slept @ [delay])"
  using assms
  by (subst Do_loop.simps) (auto simp: retriable_def attempt_cause_def split: attempt_outcome.splits)

lemma Do_loop_prefix:
  assumes "\<forall>k. a \<le> k \<and> k < a + int d \<longrightarrow> retriable (send k) \<and> ctx k = None"
    and "a + int d \<le> MaxAttempts cfg"
  shows "Do_loop cfg send ctx a delay lastErr sent slept =
         Do_loop cfg send ctx (a + int d) ((next_delay cfg ^^ d) delay)
           (if d = 0 then lastErr else attempt_cause (send (a + int d - 1)))
           (sent + d) (slept @ map (\<lambda>j. (next_delay cfg ^^ j) delay) [0..<d])"
  using assms
proof (induction d arbitrary: a delay lastErr sent slept)
  case 0
  then show ?case by simp
next
  case (Suc d)
  have first: "a < MaxAttempts cfg" "retriable (send a)" "ctx a = None"
    using Suc.prems by auto
  have rest: "\<forall>k. a + 1 \<le> k \<and> k < (a + 1) + int d \<longrightarrow> retriable (send k) \<and> ctx k = None"
    "(a + 1) + int d \<le> MaxAttempts cfg"
    using Suc.prems by auto
  have m: "map (\<lambda>j. (next_delay cfg ^^ j) delay) [0..<Suc d] =
       delay # map (\<lambda>j. (next_delay cfg ^^ j) (next_delay cfg delay)) [0..<d]"
    by (simp add: upt_conv_Cons funpow_swap1 map_Suc_upt [symmetric] del: upt_Suc)
  show ?case
  proof -
    have "Do_loop cfg send ctx a delay lastErr sent slept =
        Do_loop cfg send ctx (a + 1) (next_delay cfg delay) (attempt_cause (send a))
           (Suc sent) (slept @ [delay])"
      by (rule Do_loop_retry [where attempt = a and cfg = cfg and send = send and ctx = ctx,
            OF first])
    also have "\<dots> = Do_loop cfg send ctx ((a + 1) + int d) ((next_delay cfg ^^ d) (next_delay cfg delay))
           (if d = 0 then attempt_cause (send a) else attempt_cause (send ((a + 1) + int d - 1)))
           (Suc sent + d)
           ((slept @ [delay]) @ map (\<lambda>j. (next_delay cfg ^^ j) (next_delay cfg delay)) [0..<d])"
      by (rule Suc.IH [OF rest])
    also have "\<dots> = Do_loop cfg send ctx (a + int (Suc d)) ((next_delay cfg ^^ Suc d) delay)
           (if Suc d = 0 then lastErr else attempt_cause (send (a + int (Suc d) - 1)))
           (sent + Suc d) (slept @ map (\<lambda>j. (next_delay cfg ^^ j) delay) [0..<Suc d])"
    proof (cases "d = 0")
      case True
      then show ?thesis by simp
    next
      case False
      then show ?thesis by (simp add: m funpow_swap1 add.assoc del: upt_Suc)
    qed
    finally show ?thesis .
  qed
qed

lemma effective_config_fields:
  "MaxAttempts (effective_config cfg) = effective_attempts cfg"
  "BaseDelay (effective_config cfg) = BaseDelay cfg"
  "MaxDelay (effective_config cfg) = MaxDelay cfg"
  "next_delay (effective_config cfg) = next_delay cfg"
  by (auto simp: effective_config_def effective_attempts_def next_delay_def Let_def fun_eq_iff)

lemma effective_attempts_pos: "1 \<le> effective_attempts cfg"
  by (simp add: effective_attempts_def DefaultRetry_def)

lemma funpow_next_delay: "(next_delay cfg ^^ j) (BaseDelay cfg) = delay_at cfg j"
  by (induction j) simp_all

lemma Do_reaches:
  assumes m: "1 \<le> m" "m \<le> effective_attempts cfg"
    and pre: "\<forall>k. 1 \<le> k \<and> k < m \<longrightarrow> retriable (send k) \<and> ctx k = None"
  shows "Do cfg send ctx =
         Do_loop (effective_config cfg) send ctx m (delay_at cfg (nat m - 1))
           (if m = 1 then None else attempt_cause (send (m - 1)))
           (nat m - 1) (map (delay_at cfg) [0..<nat m - 1])"
proof -
  let ?c = "effective_config cfg"
  let ?d = "nat m - 1"
  have md: "1 + int ?d = m" using m by simp
  have p: "\<forall>k. 1 \<le> k \<and> k < 1 + int ?d \<longrightarrow> retriable (send k) \<and> ctx k = None"
    using pre md by simp
  have le: "1 + int ?d \<le> MaxAttempts ?c"
    using m md by (simp add: effective_config_fields)
  have "Do cfg send ctx = Do_loop ?c send ctx 1 (BaseDelay ?c) None 0 []"
    by (simp add: Do_def effective_config_def Let_def)
  also have "\<dots> = Do_loop ?c send ctx (1 + int ?d) ((next_delay ?c ^^ ?d) (BaseDelay ?c))
           (if ?d = 0 then None else attempt_cause (send (1 + int ?d - 1)))
           (0 + ?d) ([] @ map (\<lambda>j. (next_delay ?c ^^ j) (BaseDelay ?c)) [0..<?d])"
    by (rule Do_loop_prefix [OF p le])
  also have "\<dots> = Do_loop ?c send ctx m (delay_at cfg ?d)
           (if m = 1 then None else attempt_cause (send (m - 1)))
           ?d (map (delay_at cfg) [0..<?d])"
  proof -
    have z: "?d = 0 \<longleftrightarrow> m = 1" using m by auto
    have s: "1 + int ?d - 1 = m - 1" using md by simp
    show ?thesis
      unfolding md s z
      by (simp add: effective_config_fields funpow_next_delay)
  qed
  finally show ?thesis .
qed

lemma Do_all_failed:
  assumes "\<forall>k. 1 \<le> k \<and> k \<le> effective_attempts cfg \<longrightarrow> retriable (send k)"
    and "\<forall>k. 1 \<le> k \<and> k < effective_attempts cfg \<longrightarrow> ctx k = None"
  shows "Do cfg send ctx =
         \<lparr>outcome = Inl (AllAttemptsFailed (effective_attempts cfg)
                           (attempt_cause (send (effective_attempts cfg)))),
          attempts = nat (effective_attempts cfg),
          waits = map (delay_at cfg) [0..<nat (effective_attempts cfg) - 1]\<rparr>"
proof -
  let ?n = "effective_attempts cfg"
  have n: "1 \<le> ?n" by (rule effective_attempts_pos)
  have pre: "\<forall>k. 1 \<le> k \<and> k < ?n \<longrightarrow> retriable (send k) \<and> ctx k = None"
    using assms by auto
  have last: "retriable (send ?n)" using assms(1) n by auto
  have suc: "Suc (nat ?n - Suc 0) = nat ?n" using n by simp
  show ?thesis
    unfolding Do_reaches [OF n order_refl pre]
    using last
    by (subst Do_loop.simps)
       (auto simp: effective_config_fields retriable_def attempt_cause_def suc
          split: attempt_outcome.splits)
qed

lemma Do_success:
  assumes "1 \<le> m" "m \<le> effective_attempts cfg"
    and "\<forall>k. 1 \<le> k \<and> k < m \<longrightarrow> retriable (send k) \<and> ctx k = None"
    and "send m = Responded code body" "code < 500"
  shows "Do cfg send ctx =
         \<lparr>outcome = Inr (code, body), attempts = nat m,
          waits = map (delay_at cfg) [0..<nat m - 1]\<rparr>"
proof -
  have suc: "Suc (nat m - Suc 0) = nat m" using assms(1) by simp
  show ?thesis
    unfolding Do_reaches [OF assms(1,2,3)]
    using assms(2,4,5)
    by (subst Do_loop.simps) (simp add: effective_config_fields suc)
qed

lemma Do_cancelled:
  assumes "1 \<le> m" "m < effective_attempts cfg"
    and "\<forall>k. 1 \<le> k \<and> k \<le> m \<longrightarrow> retriable (send k)"
    and "\<forall>k. 1 \<le> k \<and> k < m \<longrightarrow> ctx k = None"
    and "ctx m = Some ce"
  shows "Do cfg send ctx =
         \<lparr>outcome = Inl (ContextError ce), attempts = nat m,
          waits = map (delay_at cfg) [0..<nat m]\<rparr>"
proof -
  have suc: "Suc (nat m - Suc 0) = nat m" using assms(1) by simp
  have le: "m \<le> effective_attempts cfg" using assms(2) by simp
  have pre: "\<forall>k. 1 \<le> k \<and> k < m \<longrightarrow> retriable (send k) \<and> ctx k = None"
    using assms(3,4) by auto
  have r: "retriable (send m)" using assms(1,3) by auto
  have "map (delay_at cfg) [0..<Suc (nat m - Suc 0)]
      = map (delay_at cfg) [0..<nat m - Suc 0] @ [delay_at cfg (nat m - Suc 0)]"
    by simp
  then have w: "map (delay_at cfg) [0..<nat m - Suc 0] @ [delay_at cfg (nat m - Suc 0)]
      = map (delay_at cfg) [0..<nat m]"
    by (simp only: suc)
  show ?thesis
    unfolding Do_reaches [OF assms(1) le pre]
    using r assms(2,5)
    by (subst Do_loop.simps)
       (auto simp: effective_config_fields retriable_def suc w
          split: attempt_outcome.splits)
qed

lemma wrap64_id: "- (2 ^ 63) \<le> x \<Longrightarrow> x < 2 ^ 63 \<Longrightarrow> wrap64 x = x"
  by (simp add: wrap64_def)

lemma delay_at_backoff:
  assumes "delays_in_range cfg"
  shows "delay_at cfg k = backoff cfg k \<and> 0 \<le> delay_at cfg k \<and> delay_at cfg k < 2 ^ 62"
proof (induction k)
  case 0
  then show ?case using assms by (simp add: delays_in_range_def)
next
  case (Suc k)
  then have b: "0 \<le> delay_at cfg k" "delay_at cfg k < 2 ^ 62"
    and e: "delay_at cfg k = backoff cfg k" by simp_all
  have w: "wrap64 (delay_at cfg k * 2) = delay_at cfg k * 2"
    using b by (intro wrap64_id) simp_all
  show ?case
    using assms b e [symmetric]
    by (auto simp: next_delay_def w Let_def delays_in_range_def min_def)
qed


lemma funpow_delays_Suc:
  "map (\<lambda>j. (next_delay cfg ^^ j) delay) [0..<Suc d] =
     delay # map (\<lambda>j. (next_delay cfg ^^ j) (next_delay cfg delay)) [0..<d]"
  by (simp add: upt_conv_Cons funpow_swap1 map_Suc_upt [symmetric] del: upt_Suc)

lemma Do_loop_waits:
  "\<exists>d. waits (Do_loop cfg send ctx a delay lastErr sent slept) =
         slept @ map (\<lambda>j. (next_delay cfg ^^ j) delay) [0..<d]"
proof (induction cfg send ctx a delay lastErr sent slept rule: Do_loop.induct)
  case (1 cfg send ctx attempt delay lastErr sent slept)
  let ?P = "\<lambda>r. \<exists>d. waits r = slept @ map (\<lambda>j. (next_delay cfg ^^ j) delay) [0..<d]"
  have zero: "?P r" if "waits r = slept" for r
    using that by (intro exI [of _ 0]) simp
  have one: "?P r" if "waits r = slept @ [delay]" for r
    using that by (intro exI [of _ 1]) simp
  have more: "?P r"
    if "\<exists>d. waits r = (slept @ [delay]) @
           map (\<lambda>j. (next_delay cfg ^^ j) (next_delay cfg delay)) [0..<d]" for r
  proof -
    from that obtain d where "waits r = (slept @ [delay]) @
           map (\<lambda>j. (next_delay cfg ^^ j) (next_delay cfg delay)) [0..<d]" ..
    then have "waits r = slept @ map (\<lambda>j. (next_delay cfg ^^ j) delay) [0..<Suc d]"
      by (simp only: funpow_delays_Suc) simp
    then show ?thesis ..
  qed
  show ?case
  proof (cases "attempt \<le> MaxAttempts cfg")
    case False
    then show ?thesis by (intro zero) (subst Do_loop.simps, simp)
  next
    case le: True
    show ?thesis
    proof (cases "send attempt")
      case (BuildFailed e)
      with le show ?thesis by (intro zero) (subst Do_loop.simps, simp)
    next
      case (TransportFailed e)
      show ?thesis
      proof (cases "attempt = MaxAttempts cfg")
        case True
        with le TransportFailed show ?thesis by (intro zero) (subst Do_loop.simps, simp)
      next
        case ne: False
        show ?thesis
        proof (cases "ctx attempt")
          case None
          from "1.IH"(1) [OF le TransportFailed ne None] le TransportFailed ne None
          show ?thesis by (intro more) (subst Do_loop.simps, simp)
        next
          case (Some ce)
          with le TransportFailed ne show ?thesis by (intro one) (subst Do_loop.simps, simp)
        qed
      qed
    next
      case (Responded code body)
      show ?thesis
      proof (cases "code < 500")
        case True
        with le Responded show ?thesis by (intro zero) (subst Do_loop.simps, simp)
      next
        case ge: False
        show ?thesis
        proof (cases "attempt = MaxAttempts cfg")
          case True
          with le Responded ge show ?thesis by (intro zero) (subst Do_loop.simps, simp)
        next
          case ne: False
          show ?thesis
          proof (cases "ctx attempt")
            case None
            from "1.IH"(2) [OF le Responded ge ne None] le Responded ge ne None
            show ?thesis by (intro more) (subst Do_loop.simps, simp)
          next
            case (Some ce)
            with le Responded ge ne show ?thesis by (intro one) (subst Do_loop.simps, simp)
          qed
        qed
      qed
    qed
  qed
qed

lemma Do_waits:
  "waits (Do cfg send ctx) = map (delay_at cfg) [0..<length (waits (Do cfg send ctx))]"
proof -
  from Do_loop_waits [of "effective_config cfg" send ctx 1 "BaseDelay (effective_config cfg)"
      None 0 "[]"]
  obtain d where "waits (Do cfg send ctx) = map (delay_at cfg) [0..<d]"
    by (auto simp: Do_def effective_config_def [symmetric] Let_def effective_config_fields
        funpow_next_delay)
  then show ?thesis by (metis length_map length_upt minus_nat.diff_0)
qed

text \<open>
  C7 as stated fails for a configuration whose attempt count is not positive: Do replaces
  it by the default of three, so against a server that always answers 502 it makes three
  attempts, not zero.
\<close>

theorem Do_zero_attempts_counterexample:
  "retriable (bad_gateway 1) \<and> retriable (bad_gateway 2) \<and> retriable (bad_gateway 3)
   \<and> attempts (Do zero_attempts_config bad_gateway never_done) = 3
   \<and> attempts (Do zero_attempts_config bad_gateway never_done)
        \<noteq> nat (MaxAttempts zero_attempts_config)"
proof -
  have r: "retriable (bad_gateway k)" for k
    by (simp add: bad_gateway_def retriable_def)
  have n: "effective_attempts zero_attempts_config = 3"
    by (simp add: effective_attempts_def zero_attempts_config_def DefaultRetry_def)
  have "attempts (Do zero_attempts_config bad_gateway never_done)
      = nat (effective_attempts zero_attempts_config)"
    by (subst Do_all_failed) (simp_all add: r never_done_def)
  then have a: "attempts (Do zero_attempts_config bad_gateway never_done) = 3"
    by (simp add: n)
  have z: "nat (MaxAttempts zero_attempts_config) = 0"
    by (simp add: zero_attempts_config_def)
  from r a z show ?thesis by simp
qed

text \<open>
  C7, amended.  Let \<open>n\<close> be the number of attempts in force.  When every attempt up to
  \<open>n\<close> yields a transport error or a status of at least 500 and the context is not done
  during the waits, Do makes exactly \<open>n\<close> attempts and returns the error that carries \<open>n\<close>
  and the cause of the last attempt.  When attempt \<open>m\<close> is the first that is not retried
  and it yields a status below 500, Do returns that response without error after exactly
  \<open>m\<close> attempts.  When the context is done during the wait after attempt \<open>m\<close>, Do returns
  the context's error after \<open>m\<close> attempts and \<open>m\<close> waits.  In every run, with delays in
  the range where doubling cannot overflow, wait number \<open>i\<close> lasts the base delay doubled
  \<open>i\<close> times with each doubling capped at the maximum delay.
\<close>

theorem retry_executor:
  "((\<forall>k. 1 \<le> k \<and> k \<le> effective_attempts cfg \<longrightarrow> retriable (send k))
      \<and> (\<forall>k. 1 \<le> k \<and> k < effective_attempts cfg \<longrightarrow> ctx k = None) \<longrightarrow>
      outcome (Do cfg send ctx)
        = Inl (AllAttemptsFailed (effective_attempts cfg)
                 (attempt_cause (send (effective_attempts cfg))))
      \<and> attempt_cause (send (effective_attempts cfg)) \<noteq> None
      \<and> attempts (Do cfg send ctx) = nat (effective_attempts cfg))
   \<and> (1 \<le> m \<and> m \<le> effective_attempts cfg
      \<and> (\<forall>k. 1 \<le> k \<and> k < m \<longrightarrow> retriable (send k) \<and> ctx k = None)
      \<and> send m = Responded code body \<and> code < 500 \<longrightarrow>
      outcome (Do cfg send ctx) = Inr (code, body) \<and> attempts (Do cfg send ctx) = nat m)
   \<and> (1 \<le> m \<and> m < effective_attempts cfg
      \<and> (\<forall>k. 1 \<le> k \<and> k \<le> m \<longrightarrow> retriable (send k))
      \<and> (\<forall>k. 1 \<le> k \<and> k < m \<longrightarrow> ctx k = None) \<and> ctx m = Some ce \<longrightarrow>
      outcome (Do cfg send ctx) = Inl (ContextError ce) \<and> attempts (Do cfg send ctx) = nat m
      \<and> length (waits (Do cfg send ctx)) = nat m)
   \<and> (delays_in_range cfg \<longrightarrow>
        (\<forall>i < length (waits (Do cfg send ctx)). waits (Do cfg send ctx) ! i = backoff cfg i))
   \<and> (0 < MaxAttempts cfg \<longrightarrow> effective_attempts cfg = MaxAttempts cfg)
   \<and> (MaxAttempts cfg \<le> 0 \<longrightarrow> effective_attempts cfg = 3)"
proof -
  have c1: "(\<forall>k. 1 \<le> k \<and> k \<le> effective_attempts cfg \<longrightarrow> retriable (send k))
      \<and> (\<forall>k. 1 \<le> k \<and> k < effective_attempts cfg \<longrightarrow> ctx k = None) \<longrightarrow>
      outcome (Do cfg send ctx)
        = Inl (AllAttemptsFailed (effective_attempts cfg)
                 (attempt_cause (send (effective_attempts cfg))))
      \<and> attempt_cause (send (effective_attempts cfg)) \<noteq> None
      \<and> attempts (Do cfg send ctx) = nat (effective_attempts cfg)"
  proof
    assume a: "(\<forall>k. 1 \<le> k \<and> k \<le> effective_attempts cfg \<longrightarrow> retriable (send k))
      \<and> (\<forall>k. 1 \<le> k \<and> k < effective_attempts cfg \<longrightarrow> ctx k = None)"
    then have "retriable (send (effective_attempts cfg))"
      using effective_attempts_pos [of cfg] by simp
    then have ne: "attempt_cause (send (effective_attempts cfg)) \<noteq> None"
      by (auto simp: retriable_def attempt_cause_def split: attempt_outcome.splits)
    from a have "Do cfg send ctx =
         \<lparr>outcome = Inl (AllAttemptsFailed (effective_attempts cfg)
                           (attempt_cause (send (effective_attempts cfg)))),
          attempts = nat (effective_attempts cfg),
          waits = map (delay_at cfg) [0..<nat (effective_attempts cfg) - 1]\<rparr>"
      by (intro Do_all_failed) simp_all
    with ne show "outcome (Do cfg send ctx)
        = Inl (AllAttemptsFailed (effective_attempts cfg)
                 (attempt_cause (send (effective_attempts cfg))))
      \<and> attempt_cause (send (effective_attempts cfg)) \<noteq> None
      \<and> attempts (Do cfg send ctx) = nat (effective_attempts cfg)"
      by simp
  qed
  have c2: "1 \<le> m \<and> m \<le> effective_attempts cfg
      \<and> (\<forall>k. 1 \<le> k \<and> k < m \<longrightarrow> retriable (send k) \<and> ctx k = None)
      \<and> send m = Responded code body \<and> code < 500 \<longrightarrow>
      outcome (Do cfg send ctx) = Inr (code, body) \<and> attempts (Do cfg send ctx) = nat m"
  proof
    assume a: "1 \<le> m \<and> m \<le> effective_attempts cfg
      \<and> (\<forall>k. 1 \<le> k \<and> k < m \<longrightarrow> retriable (send k) \<and> ctx k = None)
      \<and> send m = Responded code body \<and> code < 500"
    then have "Do cfg send ctx =
         \<lparr>outcome = Inr (code, body), attempts = nat m,
          waits = map (delay_at cfg) [0..<nat m - 1]\<rparr>"
      by (intro Do_success) simp_all
    then show "outcome (Do cfg send ctx) = Inr (code, body)
        \<and> attempts (Do cfg send ctx) = nat m"
      by simp
  qed
  have c3: "1 \<le> m \<and> m < effective_attempts cfg
      \<and> (\<forall>k. 1 \<le> k \<and> k \<le> m \<longrightarrow> retriable (send k))
      \<and> (\<forall>k. 1 \<le> k \<and> k < m \<longrightarrow> ctx k = None) \<and> ctx m = Some ce \<longrightarrow>
      outcome (Do cfg send ctx) = Inl (ContextError ce) \<and> attempts (Do cfg send ctx) = nat m
      \<and> length (waits (Do cfg send ctx)) = nat m"
  proof
    assume a: "1 \<le> m \<and> m < effective_attempts cfg
      \<and> (\<forall>k. 1 \<le> k \<and> k \<le> m \<longrightarrow> retriable (send k))
      \<and> (\<forall>k. 1 \<le> k \<and> k < m \<longrightarrow> ctx k = None) \<and> ctx m = Some ce"
    then have "Do cfg send ctx =
         \<lparr>outcome = Inl (ContextError ce), attempts = nat m,
          waits = map (delay_at cfg) [0..<nat m]\<rparr>"
      by (intro Do_cancelled) simp_all
    then show "outcome (Do cfg send ctx) = Inl (ContextError ce)
        \<and> attempts (Do cfg send ctx) = nat m
        \<and> length (waits (Do cfg send ctx)) = nat m"
      by simp
  qed
  have c4: "delays_in_range cfg \<longrightarrow>
        (\<forall>i < length (waits (Do cfg send ctx)). waits (Do cfg send ctx) ! i = backoff cfg i)"
  proof (intro impI allI)
    fix i
    assume r: "delays_in_range cfg" and i: "i < length (waits (Do cfg send ctx))"
    have "waits (Do cfg send ctx) ! i
        = map (delay_at cfg) [0..<length (waits (Do cfg send ctx))] ! i"
      using Do_waits [of cfg send ctx] by simp
    also have "\<dots> = delay_at cfg i" using i by simp
    also have "\<dots> = backoff cfg i" using delay_at_backoff [OF r, of i] by simp
    finally show "waits (Do cfg send ctx) ! i = backoff cfg i" .
  qed
  have c5: "0 < MaxAttempts cfg \<longrightarrow> effective_attempts cfg = MaxAttempts cfg"
    by (simp add: effective_attempts_def)
  have c6: "MaxAttempts cfg \<le> 0 \<longrightarrow> effective_attempts cfg = 3"
    by (simp add: effective_attempts_def DefaultRetry_def)
  from c1 c2 c3 c4 c5 c6 show ?thesis by blast
qed

theorem retry_executor_witness:
  "outcome (Do test_config bad_gateway never_done)
     = Inl (AllAttemptsFailed 3 (Some (HTTPCause 502 ''upstream error'')))
   \<and> attempts (Do test_config bad_gateway never_done) = 3
   \<and> outcome (Do test_config bad_request never_done) = Inr (400, [])
   \<and> attempts (Do test_config bad_request never_done) = 1
   \<and> outcome (Do test_config bad_gateway deadline_passed) = Inl (ContextError DeadlineExceeded)
   \<and> attempts (Do test_config bad_gateway deadline_passed) = 1
   \<and> waits (Do test_config bad_gateway deadline_passed) ! 0 = 50000000"
proof -
  have n: "effective_attempts test_config = 3"
    by (simp add: effective_attempts_def test_config_def)
  have r: "retriable (bad_gateway k)" for k
    by (simp add: bad_gateway_def retriable_def)
  have c: "attempt_cause (bad_gateway k) = Some (HTTPCause 502 ''upstream error'')" for k
    by (simp add: bad_gateway_def attempt_cause_def)
  have range: "delays_in_range test_config"
    by (simp add: delays_in_range_def test_config_def)
  have b0: "backoff test_config 0 = 50000000"
    by (simp add: test_config_def)
  note t1 = retry_executor [where cfg = test_config and send = bad_gateway and ctx = never_done
      and m = 1 and code = 0 and body = "[]" and ce = Canceled]
  from t1 r have a1: "outcome (Do test_config bad_gateway never_done)
     = Inl (AllAttemptsFailed 3 (Some (HTTPCause 502 ''upstream error'')))"
    and a2: "attempts (Do test_config bad_gateway never_done) = 3"
    by (simp_all add: n c never_done_def)
  note t2 = retry_executor [where cfg = test_config and send = bad_request and ctx = never_done
      and m = 1 and code = 400 and body = "[]" and ce = Canceled]
  have h2: "1 \<le> (1::int) \<and> 1 \<le> effective_attempts test_config
      \<and> (\<forall>k. 1 \<le> k \<and> k < 1 \<longrightarrow> retriable (bad_request k) \<and> never_done k = None)
      \<and> bad_request 1 = Responded 400 [] \<and> (400::int) < 500"
    by (auto simp: n bad_request_def)
  from t2 h2 have "outcome (Do test_config bad_request never_done) = Inr (400, [])
      \<and> attempts (Do test_config bad_request never_done) = nat 1"
    by blast
  then have b1: "outcome (Do test_config bad_request never_done) = Inr (400, [])"
    and b2: "attempts (Do test_config bad_request never_done) = 1"
    by simp_all
  note t3 = retry_executor [where cfg = test_config and send = bad_gateway
      and ctx = deadline_passed and m = 1 and code = 0 and body = "[]"
      and ce = DeadlineExceeded]
  from t3 r have c1: "outcome (Do test_config bad_gateway deadline_passed)
      = Inl (ContextError DeadlineExceeded)"
    and c2: "attempts (Do test_config bad_gateway deadline_passed) = 1"
    and c3: "length (waits (Do test_config bad_gateway deadline_passed)) = 1"
    by (simp_all add: n deadline_passed_def)
  from t3 range c3 have "waits (Do test_config bad_gateway deadline_passed) ! 0
      = backoff test_config 0"
    by simp
  then have c4: "waits (Do test_config bad_gateway deadline_passed) ! 0 = 50000000"
    by (simp only: b0)
  from a1 a2 b1 b2 c1 c2 c4 show ?thesis by blast
qed

section \<open>Properties of level generation\<close>



















section \<open>Further properties of paper execution\<close>

lemma executePaperSwap_sell:
  assumes "side \<noteq> ''buy''" "ethAmount + defaultPaperGasCost \<le> ETHBalance pw"
    "0 \<le> defaultPaperGasCost"
  shows "\<exists>t. executePaperSwap maxPct u now pw level price side ethAmount usdc =
           Inr (RecordTrade
                  (DeductGas (pw\<lparr>ETHBalance := ETHBalance pw - ethAmount,
                       USDCBalance := USDCBalance pw + usdc * (1 - randomSlippage u maxPct)\<rparr>)
                     defaultPaperGasCost) now t,
                (side, now), randomSlippage u maxPct * 100, defaultPaperGasCost)"
  using assms by (auto simp: executePaperSwap_def ExecuteSell_def Let_def)

lemma executePaperSwap_sell_refused:
  assumes "side \<noteq> ''buy''" "ETHBalance pw < ethAmount + defaultPaperGasCost"
  shows "\<exists>e. executePaperSwap maxPct u now pw level price side ethAmount usdc = Inl e"
  using assms by (simp add: executePaperSwap_def Let_def)

lemma executePaperSwap_buy_refused:
  assumes "USDCBalance pw < usdc"
  shows "\<exists>e. executePaperSwap maxPct u now pw level price ''buy'' q usdc = Inl e"
  using assms by (simp add: executePaperSwap_def ExecuteBuy_def Let_def)

text \<open>
  The part of the wallet invariant that the code keeps.  Every completed paper trade
  appends exactly one trade to the wallet's list and keeps the earlier ones.  A completed
  buy leaves the quote balance non-negative.  A completed sell of a non-negative quote
  amount, with a slippage sample in \<open>[0, 1)\<close> and a slippage setting between 0 and 100
  percent, leaves both balances of a wallet with a non-negative quote balance
  non-negative.
\<close>

theorem paper_trade_kept_invariants:
  "(executePaperSwap maxPct u now pw level price side q usdc = Inr (pw', r) \<longrightarrow>
      (\<exists>t. Trades pw' = Trades pw @ [t]))
   \<and> (executePaperSwap maxPct u now pw level price ''buy'' q usdc = Inr (pw', r) \<longrightarrow>
      0 \<le> USDCBalance pw')
   \<and> (side \<noteq> ''buy'' \<and> 0 \<le> USDCBalance pw \<and> 0 \<le> usdc \<and> 0 \<le> u \<and> u < 1
      \<and> 0 \<le> maxPct \<and> maxPct \<le> 100
      \<and> executePaperSwap maxPct u now pw level price side q usdc = Inr (pw', r) \<longrightarrow>
      0 \<le> ETHBalance pw' \<and> 0 \<le> USDCBalance pw')"
proof -
  have g: "0 \<le> defaultPaperGasCost" by (simp add: defaultPaperGasCost_def)
  have app: "executePaperSwap maxPct u now pw level price side q usdc = Inr (pw', r) \<longrightarrow>
      (\<exists>t. Trades pw' = Trades pw @ [t])"
  proof
    assume run: "executePaperSwap maxPct u now pw level price side q usdc = Inr (pw', r)"
    show "\<exists>t. Trades pw' = Trades pw @ [t]"
    proof (cases "side = ''buy''")
      case True
      with run executePaperSwap_buy_refused [of pw usdc maxPct u now level price q]
      have "usdc \<le> USDCBalance pw" by fastforce
      from executePaperSwap_buy [OF this, of maxPct u now level price q] run True
      show ?thesis by (auto simp: RecordTrade_balances DeductGas_balances)
    next
      case False
      with run executePaperSwap_sell_refused [of side pw q maxPct u now level price usdc]
      have "q + defaultPaperGasCost \<le> ETHBalance pw" by fastforce
      from executePaperSwap_sell [OF False this g, of maxPct u now level price usdc] run
      show ?thesis by (auto simp: RecordTrade_balances DeductGas_balances)
    qed
  qed
  have buy: "executePaperSwap maxPct u now pw level price ''buy'' q usdc = Inr (pw', r) \<longrightarrow>
      0 \<le> USDCBalance pw'"
  proof
    assume run: "executePaperSwap maxPct u now pw level price ''buy'' q usdc = Inr (pw', r)"
    with executePaperSwap_buy_refused [of pw usdc maxPct u now level price q]
    have le: "usdc \<le> USDCBalance pw" by fastforce
    from executePaperSwap_buy [OF le, of maxPct u now level price q] run le
    show "0 \<le> USDCBalance pw'" by (auto simp: RecordTrade_balances DeductGas_balances)
  qed
  have sell: "side \<noteq> ''buy'' \<and> 0 \<le> USDCBalance pw \<and> 0 \<le> usdc \<and> 0 \<le> u \<and> u < 1
      \<and> 0 \<le> maxPct \<and> maxPct \<le> 100
      \<and> executePaperSwap maxPct u now pw level price side q usdc = Inr (pw', r) \<longrightarrow>
      0 \<le> ETHBalance pw' \<and> 0 \<le> USDCBalance pw'"
  proof
    assume a: "side \<noteq> ''buy'' \<and> 0 \<le> USDCBalance pw \<and> 0 \<le> usdc \<and> 0 \<le> u \<and> u < 1
      \<and> 0 \<le> maxPct \<and> maxPct \<le> 100
      \<and> executePaperSwap maxPct u now pw level price side q usdc = Inr (pw', r)"
    then have s: "side \<noteq> ''buy''"
      and run: "executePaperSwap maxPct u now pw level price side q usdc = Inr (pw', r)"
      by simp_all
    from run s executePaperSwap_sell_refused [of side pw q maxPct u now level price usdc]
    have le: "q + defaultPaperGasCost \<le> ETHBalance pw" by fastforce
    from a have "u * maxPct \<le> 1 * 100"
      by (intro mult_mono) simp_all
    then have "randomSlippage u maxPct \<le> 1"
      by (simp add: randomSlippage_def)
    with a have c: "0 \<le> usdc * (1 - randomSlippage u maxPct)" by simp
    from executePaperSwap_sell [OF s le g, of maxPct u now level price usdc] run
    have "ETHBalance pw' = ETHBalance pw - q - defaultPaperGasCost"
      and "USDCBalance pw' = USDCBalance pw + usdc * (1 - randomSlippage u maxPct)"
      by (auto simp: RecordTrade_balances DeductGas_balances)
    with le c a show "0 \<le> ETHBalance pw' \<and> 0 \<le> USDCBalance pw'" by simp
  qed
  from app buy sell show ?thesis by blast
qed

theorem paper_trade_kept_invariants_witness:
  "\<exists>pw' r. executePaperSwap (1 / 2) (8 / 10) 7 (new_wallet 1 1000) level_2000 2000 ''sell''
              (5 / 100) 100 = Inr (pw', r)
     \<and> 0 \<le> ETHBalance pw' \<and> 0 \<le> USDCBalance pw' \<and> length (Trades pw') = 1"
proof -
  have w: "ETHBalance (new_wallet 1 1000) = 1" "USDCBalance (new_wallet 1 1000) = 1000"
    "Trades (new_wallet 1 1000) = []"
    by (simp_all add: new_wallet_def)
  have s: "''sell'' \<noteq> ''buy''" by simp
  have le: "5 / 100 + defaultPaperGasCost \<le> ETHBalance (new_wallet 1 1000)"
    by (simp add: w defaultPaperGasCost_def)
  have g: "0 \<le> defaultPaperGasCost" by (simp add: defaultPaperGasCost_def)
  from executePaperSwap_sell [OF s le g, of "1 / 2" "8 / 10" 7 level_2000 2000 100]
  obtain pw' r where
    run: "executePaperSwap (1 / 2) (8 / 10) 7 (new_wallet 1 1000) level_2000 2000 ''sell''
            (5 / 100) 100 = Inr (pw', r)"
    by blast
  have h: "''sell'' \<noteq> ''buy'' \<and> 0 \<le> USDCBalance (new_wallet 1 1000) \<and> (0::real) \<le> 100
      \<and> (0::real) \<le> 8 / 10 \<and> (8 / 10 :: real) < 1 \<and> (0::real) \<le> 1 / 2 \<and> (1 / 2 :: real) \<le> 100"
    by (simp add: w)
  note t = paper_trade_kept_invariants [of "1 / 2" "8 / 10" 7 "new_wallet 1 1000" level_2000
      2000 "''sell''" "5 / 100" 100 pw' r]
  from t h run have nn: "0 \<le> ETHBalance pw' \<and> 0 \<le> USDCBalance pw'" by blast
  from t run obtain tr where "Trades pw' = Trades (new_wallet 1 1000) @ [tr]" by blast
  then have "length (Trades pw') = 1" by (simp add: w)
  with run nn show ?thesis by blast
qed

end
